theory Spec2Isabelle
  imports Complex_Main "HOL-Library.Multiset"
begin

section \<open>Strings\<close>

text \<open>
  A Python \<^verbatim>\<open>str\<close> is a sequence of Unicode code points, and the regular expressions of
  the program match code points (\<^verbatim>\<open>[k\<Omega>]\<close> is a class of two characters). A string is
  therefore a list of code points; \<open>ascii\<close> embeds an ASCII literal.
\<close>

type_synonym ustr = "nat list"

definition ascii :: "string \<Rightarrow> ustr" where
  "ascii s = map of_char s"

definition underscore :: nat where
  "underscore = 95"

section \<open>Static tables\<close>

text \<open>The dictionary \<^verbatim>\<open>MPN_MAP\<close>, in the order of the source.\<close>

definition MPN_MAP :: "ustr \<Rightarrow> ustr option" where
  "MPN_MAP = map_of
    [(ascii ''C2040'', ascii ''RP2040''),
     (ascii ''RP2040'', ascii ''SC0914(13)''),
     (ascii ''C9002'', ascii ''X322512MSB4SI''),
     (ascii ''C97521'', ascii ''W25Q128JVSIQ''),
     (ascii ''X322512MSB4SI'', ascii ''ECS-2333-120-BN-TR''),
     (ascii ''ERM8-040-05.0-X-DV-L-K-TR'', ascii ''ERM8-040-05.0-L-DV-L-K-TR'')]"

section \<open>normalize_filename\<close>

text \<open>
  \<^verbatim>\<open>re.sub(r'[/<>:"\\|?*,]', "_", mpn)\<close>: every character of the class becomes an
  underscore. The class holds the ten characters \<^verbatim>\<open>/ < > : " \ | ? * ,\<close>; the double quote
  is code point 34 and the backslash 92.
\<close>

definition invalid_filename_chars :: "nat list" where
  "invalid_filename_chars = ascii ''/<>:'' @ [34, 92] @ ascii ''|?*,''"

definition sub_invalid :: "ustr \<Rightarrow> ustr" where
  "sub_invalid s = map (\<lambda>c. if c \<in> set invalid_filename_chars then underscore else c) s"

text \<open>
  \<^verbatim>\<open>re.sub(r"_+", "_", valid_name)\<close>: the pattern is greedy and the matches do not
  overlap, so every maximal run of underscores is replaced by one underscore.
\<close>

function sub_underscores :: "ustr \<Rightarrow> ustr" where
  "sub_underscores [] = []"
| "sub_underscores (c # cs) =
     (if c = underscore then underscore # sub_underscores (dropWhile (\<lambda>d. d = underscore) cs)
      else c # sub_underscores cs)"
  by pat_completeness auto
termination
  by (relation "measure length") (auto simp: length_dropWhile_le less_Suc_eq_le)

text \<open>\<^verbatim>\<open>valid_name.strip("_")\<close>: the underscores at both ends are removed.\<close>

definition strip_underscores :: "ustr \<Rightarrow> ustr" where
  "strip_underscores s =
     rev (dropWhile (\<lambda>c. c = underscore) (rev (dropWhile (\<lambda>c. c = underscore) s)))"

definition normalize_filename :: "ustr \<Rightarrow> ustr" where
  "normalize_filename mpn = strip_underscores (sub_underscores (sub_invalid mpn))"

text \<open>A string without two adjacent underscores (used to state and prove the properties).\<close>

fun no_double :: "ustr \<Rightarrow> bool" where
  "no_double (c # d # cs) = (\<not> (c = underscore \<and> d = underscore) \<and> no_double (d # cs))"
| "no_double _ = True"

section \<open>The rewrite loop of parse_bom_row\<close>

lemma ascii_eq_iff [simp]: "ascii a = ascii b \<longleftrightarrow> a = b"
  unfolding ascii_def by (metis inj_map_eq_map inj_of_char)

lemma MPN_MAP_cases:
  "MPN_MAP m = Some m' \<Longrightarrow>
     m' \<in> {ascii ''RP2040'', ascii ''SC0914(13)'', ascii ''X322512MSB4SI'',
           ascii ''W25Q128JVSIQ'', ascii ''ECS-2333-120-BN-TR'', ascii ''ERM8-040-05.0-L-DV-L-K-TR''}"
  unfolding MPN_MAP_def by (drule map_of_SomeD) auto

lemma MPN_MAP_values:
  "MPN_MAP (ascii ''RP2040'') = Some (ascii ''SC0914(13)'')"
  "MPN_MAP (ascii ''SC0914(13)'') = None"
  "MPN_MAP (ascii ''X322512MSB4SI'') = Some (ascii ''ECS-2333-120-BN-TR'')"
  "MPN_MAP (ascii ''W25Q128JVSIQ'') = None"
  "MPN_MAP (ascii ''ECS-2333-120-BN-TR'') = None"
  "MPN_MAP (ascii ''ERM8-040-05.0-L-DV-L-K-TR'') = None"
  by (simp_all add: MPN_MAP_def)

text \<open>
  The number of rewrites an identifier is away from leaving the map, counted up to two:
  the measure that decreases along the loop.
\<close>

definition mpn_rank :: "ustr \<Rightarrow> nat" where
  "mpn_rank m =
     (case MPN_MAP m of
        None \<Rightarrow> 0
      | Some m' \<Rightarrow> (case MPN_MAP m' of None \<Rightarrow> 1 | Some m'' \<Rightarrow> 2))"

lemma mpn_rank_decreases: "MPN_MAP m = Some m' \<Longrightarrow> mpn_rank m' < mpn_rank m"
  using MPN_MAP_cases [of m m'] by (auto simp: mpn_rank_def MPN_MAP_values)

text \<open>
  \<^verbatim>\<open>while data["mpn"] in MPN_MAP: data["mpn"] = MPN_MAP[data["mpn"]]\<close>.
  The loop has no bound in the source; it is a function here because every rewrite
  lowers \<open>mpn_rank\<close>.
\<close>

function rewrite_mpn :: "ustr \<Rightarrow> ustr" where
  "rewrite_mpn mpn =
     (case MPN_MAP mpn of Some mpn' \<Rightarrow> rewrite_mpn mpn' | None \<Rightarrow> mpn)"
  by pat_completeness auto
termination
  by (relation "measure mpn_rank") (auto simp: mpn_rank_decreases)

declare rewrite_mpn.simps [simp del]

text \<open>
  The same loop with a bound on the number of rewrites: \<open>rewrite_mpn_fuel n\<close> gives up
  (\<open>None\<close>) when more than \<open>n\<close> rewrites are needed.
\<close>

fun rewrite_mpn_fuel :: "nat \<Rightarrow> ustr \<Rightarrow> ustr option" where
  "rewrite_mpn_fuel n mpn =
     (case MPN_MAP mpn of
        None \<Rightarrow> Some mpn
      | Some mpn' \<Rightarrow> (case n of 0 \<Rightarrow> None | Suc k \<Rightarrow> rewrite_mpn_fuel k mpn'))"

section \<open>Errors\<close>

text \<open>
  Every \<^verbatim>\<open>raise\<close> of the program, and every exception of a built-in operation it can
  meet, is a value. \<open>KeyError\<close> carries the missing key of a string-keyed dictionary,
  \<open>KeyError_capacitor\<close> the missing key of \<^verbatim>\<open>CAPACITOR_MAP\<close>; \<open>HTTPError\<close> is what
  \<^verbatim>\<open>raise_for_status\<close> raises.
\<close>

datatype error =
    ValueError ustr
  | KeyError ustr
  | KeyError_capacitor "real \<times> ustr \<times> ustr \<times> int \<times> ustr"
  | Exception ustr
  | HTTPError
  | ZeroDivisionError

section \<open>The static tables of the classifier\<close>

text \<open>The two characters outside ASCII: U+03A9 and U+00B1.\<close>

definition Omega :: nat where "Omega = 937"
definition plus_minus :: nat where "plus_minus = 177"

definition RESISTOR_VALUE_MAP_ERJ :: "ustr \<Rightarrow> ustr option" where
  "RESISTOR_VALUE_MAP_ERJ = map_of
    [(ascii ''1.5k'' @ [Omega], ascii ''1501''),
     (ascii ''10k'' @ [Omega], ascii ''1002''),
     (ascii ''1k'' @ [Omega], ascii ''1001''),
     (ascii ''26.1'' @ [Omega], ascii ''26R1''),
     (ascii ''4.7k'' @ [Omega], ascii ''4701''),
     (ascii ''220'' @ [Omega], ascii ''2200''),
     (ascii ''510'' @ [Omega], ascii ''5100''),
     (ascii ''5.6k'' @ [Omega], ascii ''5601''),
     (ascii ''100k'' @ [Omega], ascii ''1003''),
     (ascii ''60.4'' @ [Omega], ascii ''60R4''),
     (ascii ''1.2k'' @ [Omega], ascii ''1201''),
     (ascii ''180'' @ [Omega], ascii ''1800'')]"

definition RESISTOR_FOOTPRINT_MAP_ERJ :: "ustr \<Rightarrow> ustr option" where
  "RESISTOR_FOOTPRINT_MAP_ERJ = map_of
    [(ascii ''0402'', ascii ''ERJ-2RKF''),
     (ascii ''0603'', ascii ''ERJ-3EKF'')]"

definition RESISTOR_FOOTPRINT_MAP_ERJ_SUFFIX :: "ustr \<Rightarrow> ustr option" where
  "RESISTOR_FOOTPRINT_MAP_ERJ_SUFFIX = map_of
    [(ascii ''0402'', ascii ''X''),
     (ascii ''0603'', ascii ''V'')]"

text \<open>
  A key of \<^verbatim>\<open>CAPACITOR_MAP\<close> is the tuple (voltage, value, type, tolerance, footprint).
  Python compares the voltages as numbers (\<^verbatim>\<open>16 == 16.0\<close>), so the voltage is a real.
\<close>

type_synonym capacitor_key = "real \<times> ustr \<times> ustr \<times> int \<times> ustr"

definition CAPACITOR_MAP :: "capacitor_key \<Rightarrow> ustr option" where
  "CAPACITOR_MAP = map_of
    [((16, ascii ''100nF'', ascii ''X7R'', 10, ascii ''0402''), ascii ''GCM155R71C104KA55J''),
     ((50, ascii ''2.2uF'', ascii ''X5R'', 10, ascii ''0805''), ascii ''GCM21BR71C225KA64L''),
     ((6.3, ascii ''2.2uF'', ascii ''X5R'', 20, ascii ''0402''), ascii ''GRM155R61C225KE11D''),
     ((50, ascii ''12nF'', ascii ''X7R'', 10, ascii ''0402''), ascii ''GCM155R71E123KA55J''),
     ((50, ascii ''18pF'', ascii ''C0G'', 5, ascii ''0402''), ascii ''GCM1555C1H180JA16D''),
     ((50, ascii ''20pF'', ascii ''C0G'', 5, ascii ''0402''), ascii ''GCM1555C1H220JA16J''),
     ((25, ascii ''1uF'', ascii ''X5R'', 10, ascii ''0402''), ascii ''GRM155R61E105KA12D''),
     ((50, ascii ''4.7nF'', ascii ''X7R'', 10, ascii ''0402''), ascii ''GCM155R71H472KA37J'')]"

section \<open>Regular expressions\<close>

text \<open>
  \<^verbatim>\<open>re.search(p, s)\<close> tries the start positions of \<open>s\<close> from the left and returns the
  match at the first position where the pattern matches: \<open>re_search m s\<close>, where \<open>m\<close>
  matches the pattern at the start of its argument. \<open>contains p s\<close> is \<^verbatim>\<open>p in s\<close>.
\<close>

definition starts_with :: "ustr \<Rightarrow> ustr \<Rightarrow> bool" where
  "starts_with p s = (take (length p) s = p)"

fun contains :: "ustr \<Rightarrow> ustr \<Rightarrow> bool" where
  "contains p [] = (p = [])"
| "contains p (c # cs) = (starts_with p (c # cs) \<or> contains p cs)"

fun re_search :: "(ustr \<Rightarrow> 'a option) \<Rightarrow> ustr \<Rightarrow> 'a option" where
  "re_search m [] = m []"
| "re_search m (c # cs) = (case m (c # cs) of Some r \<Rightarrow> Some r | None \<Rightarrow> re_search m cs)"

text \<open>
  \<^verbatim>\<open>\<plusminus>1% ([0-9.]+[k\<Omega>]+)\<close> at the start of a string. The two classes are disjoint
  and both repetitions are greedy, so the group is the longest run of \<^verbatim>\<open>[0-9.]\<close> followed
  by the longest run of \<^verbatim>\<open>[k\<Omega>]\<close>, both non-empty; giving back characters of the first
  run cannot produce another match. \<^verbatim>\<open>([0-9]{4})\<close> is four ASCII digits.
\<close>

definition is_ascii_digit :: "nat \<Rightarrow> bool" where
  "is_ascii_digit c = (48 \<le> c \<and> c \<le> 57)"

definition is_value_char :: "nat \<Rightarrow> bool" where
  "is_value_char c = (is_ascii_digit c \<or> c = 46)"

definition is_unit_char :: "nat \<Rightarrow> bool" where
  "is_unit_char c = (c = 107 \<or> c = Omega)"

definition match_resistor_value :: "ustr \<Rightarrow> ustr option" where
  "match_resistor_value s =
     (if starts_with (plus_minus # ascii ''1% '') s then
        (let r = drop 4 s;
             num = takeWhile is_value_char r;
             unit = takeWhile is_unit_char (dropWhile is_value_char r)
         in if num \<noteq> [] \<and> unit \<noteq> [] then Some (num @ unit) else None)
      else None)"

definition match_footprint :: "ustr \<Rightarrow> ustr option" where
  "match_footprint s =
     (if 4 \<le> length s \<and> list_all is_ascii_digit (take 4 s) then Some (take 4 s) else None)"

section \<open>erj_mpn and parse_resistor_comment\<close>

text \<open>The three dictionary lookups of \<^verbatim>\<open>erj_mpn\<close>, in the order of the source.\<close>

definition erj_mpn :: "ustr \<Rightarrow> ustr \<Rightarrow> error + ustr" where
  "erj_mpn v footprint =
     (case RESISTOR_VALUE_MAP_ERJ v of
        None \<Rightarrow> Inl (KeyError v)
      | Some erj_value \<Rightarrow>
          (case RESISTOR_FOOTPRINT_MAP_ERJ footprint of
             None \<Rightarrow> Inl (KeyError footprint)
           | Some erj_prefix \<Rightarrow>
               (case RESISTOR_FOOTPRINT_MAP_ERJ_SUFFIX footprint of
                  None \<Rightarrow> Inl (KeyError footprint)
                | Some erj_suffix \<Rightarrow> Inr (erj_prefix @ erj_value @ erj_suffix))))"


text \<open>
  The dictionaries the program builds (\<^verbatim>\<open>data\<close>) have a fixed set of possible keys, each
  with values of one type; a missing key is \<open>None\<close>. \<open>value_str\<close> is the key
  \<^verbatim>\<open>"value"\<close>. \<open>dict_update d e\<close> is \<^verbatim>\<open>d.update(e)\<close>: the keys of \<open>e\<close> win.
\<close>

record part =
  mpn :: "ustr option"
  designators :: "ustr option"
  quantity :: "int option"
  description :: "ustr option"
  dni :: "ustr option"
  manufacturer :: "ustr option"
  vendor :: "ustr option"
  vendor_part_number :: "ustr option"
  value_str :: "ustr option"
  footprint :: "ustr option"
  available :: "int option"
  unit_price :: "real option"
  total_price :: "real option"

definition empty_part :: part where
  "empty_part = \<lparr>mpn = None, designators = None, quantity = None, description = None,
     dni = None, manufacturer = None, vendor = None, vendor_part_number = None,
     value_str = None, footprint = None, available = None, unit_price = None,
     total_price = None\<rparr>"

definition override :: "'a option \<Rightarrow> 'a option \<Rightarrow> 'a option" where
  "override old new = (case new of Some v \<Rightarrow> Some v | None \<Rightarrow> old)"

definition dict_update :: "part \<Rightarrow> part \<Rightarrow> part" where
  "dict_update d e =
     \<lparr>mpn = override (mpn d) (mpn e),
      designators = override (designators d) (designators e),
      quantity = override (quantity d) (quantity e),
      description = override (description d) (description e),
      dni = override (dni d) (dni e),
      manufacturer = override (manufacturer d) (manufacturer e),
      vendor = override (vendor d) (vendor e),
      vendor_part_number = override (vendor_part_number d) (vendor_part_number e),
      value_str = override (value_str d) (value_str e),
      footprint = override (footprint d) (footprint e),
      available = override (available d) (available e),
      unit_price = override (unit_price d) (unit_price e),
      total_price = override (total_price d) (total_price e)\<rparr>"

definition parse_resistor_comment :: "ustr \<Rightarrow> error + part" where
  "parse_resistor_comment comment =
     (case (re_search match_resistor_value comment, re_search match_footprint comment) of
        (Some v, Some fp) \<Rightarrow>
          (case erj_mpn v fp of
             Inl e \<Rightarrow> Inl e
           | Inr m \<Rightarrow>
               Inr (empty_part\<lparr>
                 mpn := Some m,
                 value_str := Some v,
                 footprint := Some fp,
                 description := Some (v @ [32, plus_minus] @ ascii ''1% '' @ fp
                    @ ascii '' thick film resistor 0.1W 50V '' @ [plus_minus] @ ascii ''100ppm/C''),
                 vendor := Some (ascii ''DigiKey''),
                 manufacturer := Some (ascii ''Panasonic Electronic Components'')\<rparr>))
      | _ \<Rightarrow> Inl (ValueError (ascii ''Invalid resistor comment'')))"

section \<open>parse_capacitor_comment\<close>

text \<open>
  In a \<^verbatim>\<open>str\<close> pattern \<^verbatim>\<open>\d\<close> matches every Unicode decimal digit (category Nd), and
  \<^verbatim>\<open>int\<close> and \<^verbatim>\<open>float\<close> read those digits by their value. The table of the Unicode
  database is not part of the program: it is the parameter \<open>nd\<close>, which gives the value of
  a decimal digit and \<open>None\<close> for every other character.

  \<^verbatim>\<open>(\d+\.?\d*)\<close> followed by a suffix that starts with neither a digit nor a dot
  (\<^verbatim>\<open>V\<close>, \<^verbatim>\<open>pF\<close>, \<^verbatim>\<open>nF\<close>, \<^verbatim>\<open>uF\<close>): the greedy match takes the longest run of digits,
  a dot when one follows, and the longest run of digits after it; when the suffix does not
  follow, no shorter choice is followed by it either. \<open>match_decimal\<close> returns the group
  and the rest of the string.
\<close>

definition is_digit :: "(nat \<Rightarrow> nat option) \<Rightarrow> nat \<Rightarrow> bool" where
  "is_digit nd c = (nd c \<noteq> None)"

definition match_decimal :: "(nat \<Rightarrow> nat option) \<Rightarrow> ustr \<Rightarrow> (ustr \<times> ustr) option" where
  "match_decimal nd s =
     (let d1 = takeWhile (is_digit nd) s; r1 = dropWhile (is_digit nd) s
      in if d1 = [] then None
         else (case r1 of
                 c # r2 \<Rightarrow>
                   (if c = 46
                    then Some (d1 @ [46] @ takeWhile (is_digit nd) r2, dropWhile (is_digit nd) r2)
                    else Some (d1, r1))
               | [] \<Rightarrow> Some (d1, r1)))"

definition match_voltage :: "(nat \<Rightarrow> nat option) \<Rightarrow> ustr \<Rightarrow> ustr option" where
  "match_voltage nd s =
     (case match_decimal nd s of
        None \<Rightarrow> None
      | Some (g1, rest) \<Rightarrow> if starts_with (ascii ''V'') rest then Some g1 else None)"

definition match_capacitance :: "(nat \<Rightarrow> nat option) \<Rightarrow> ustr \<Rightarrow> (ustr \<times> ustr) option" where
  "match_capacitance nd s =
     (case match_decimal nd s of
        None \<Rightarrow> None
      | Some (g1, rest) \<Rightarrow>
          if starts_with (ascii ''pF'') rest then Some (g1, ascii ''pF'')
          else if starts_with (ascii ''nF'') rest then Some (g1, ascii ''nF'')
          else if starts_with (ascii ''uF'') rest then Some (g1, ascii ''uF'')
          else None)"

definition match_cap_type :: "ustr \<Rightarrow> ustr option" where
  "match_cap_type s =
     (if starts_with (ascii ''X7R'') s then Some (ascii ''X7R'')
      else if starts_with (ascii ''X5R'') s then Some (ascii ''X5R'')
      else if starts_with (ascii ''C0G'') s then Some (ascii ''C0G'')
      else None)"

definition match_tolerance :: "(nat \<Rightarrow> nat option) \<Rightarrow> ustr \<Rightarrow> ustr option" where
  "match_tolerance nd s =
     (case s of
        [] \<Rightarrow> None
      | c # r \<Rightarrow>
          (if c = plus_minus then
             (let ds = takeWhile (is_digit nd) r
              in if ds \<noteq> [] \<and> starts_with (ascii ''%'') (dropWhile (is_digit nd) r)
                 then Some ds else None)
           else None))"

text \<open>
  \<^verbatim>\<open>int\<close> of a run of digits and \<^verbatim>\<open>float\<close> of a group of \<^verbatim>\<open>(\d+\.?\d*)\<close>. The float
  is modelled by the decimal value it denotes (a real number): the comparison with the
  voltages of \<^verbatim>\<open>CAPACITOR_MAP\<close> is the comparison of these values. \<open>str_int\<close> is
  \<^verbatim>\<open>str\<close> of an integer, as the f-string of the description formats the tolerance.
\<close>

definition digits_value :: "(nat \<Rightarrow> nat option) \<Rightarrow> ustr \<Rightarrow> nat" where
  "digits_value nd ds = foldl (\<lambda>a c. 10 * a + (case nd c of Some d \<Rightarrow> d | None \<Rightarrow> 0)) 0 ds"

definition py_int :: "(nat \<Rightarrow> nat option) \<Rightarrow> ustr \<Rightarrow> int" where
  "py_int nd ds = int (digits_value nd ds)"

definition py_float :: "(nat \<Rightarrow> nat option) \<Rightarrow> ustr \<Rightarrow> real" where
  "py_float nd s =
     (let ip = takeWhile (\<lambda>c. c \<noteq> 46) s; fp = drop 1 (dropWhile (\<lambda>c. c \<noteq> 46) s)
      in real (digits_value nd ip) + real (digits_value nd fp) / 10 ^ length fp)"

function str_nat :: "nat \<Rightarrow> ustr" where
  "str_nat n = (if n < 10 then [48 + n] else str_nat (n div 10) @ [48 + n mod 10])"
  by pat_completeness auto
termination
  by (relation "measure id") auto

declare str_nat.simps [simp del]

definition str_int :: "int \<Rightarrow> ustr" where
  "str_int i = (if i < 0 then 45 # str_nat (nat (- i)) else str_nat (nat i))"

definition parse_capacitor_comment :: "(nat \<Rightarrow> nat option) \<Rightarrow> ustr \<Rightarrow> error + part" where
  "parse_capacitor_comment nd comment =
     (case (re_search (match_voltage nd) comment,
            re_search (match_capacitance nd) comment,
            re_search match_cap_type comment,
            re_search (match_tolerance nd) comment,
            re_search match_footprint comment) of
        (Some vg, Some (g1, g2), Some cap_type, Some tg, Some fp) \<Rightarrow>
          (let voltage = py_float nd vg;
               v = g1 @ g2;
               tolerance = py_int nd tg;
               key = (voltage, v, cap_type, tolerance, fp)
           in case CAPACITOR_MAP key of
                None \<Rightarrow> Inl (KeyError_capacitor key)
              | Some m \<Rightarrow>
                  Inr (empty_part\<lparr>
                    mpn := Some m,
                    value_str := Some v,
                    footprint := Some fp,
                    description := Some (v @ [32, plus_minus] @ str_int tolerance @ ascii ''% ''
                       @ cap_type @ [32] @ fp @ ascii '' capacitor (MLCC)''),
                    vendor := Some (ascii ''DigiKey''),
                    manufacturer := Some (ascii ''Murata'')\<rparr>))
      | _ \<Rightarrow> Inl (ValueError (ascii ''Invalid capacitor comment'')))"


text \<open>The ASCII rows of the table of decimal digits.\<close>

definition ascii_nd :: "nat \<Rightarrow> nat option" where
  "ascii_nd c = (if 48 \<le> c \<and> c \<le> 57 then Some (c - 48) else None)"


section \<open>The catalog's answers\<close>

text \<open>
  The JSON of a keyword search, with the fields the program reads.
  \<open>ProductDescription\<close> is \<^verbatim>\<open>response["Description"]["ProductDescription"]\<close> and
  \<open>ManufacturerName\<close> is \<^verbatim>\<open>response["Manufacturer"]["Name"]\<close>. The quantities are what
  \<^verbatim>\<open>int(...)\<close> returns and the unit price what \<^verbatim>\<open>float(...)\<close> returns; a price is a
  finite number, modelled by a real.
\<close>

record pricing =
  BreakQuantity :: int
  UnitPrice :: real

record variation =
  DigiKeyProductNumber :: ustr
  QuantityAvailableforPackageType :: int
  MinimumOrderQuantity :: int
  StandardPricing :: "pricing list"

record parameter =
  ParameterText :: ustr
  ValueText :: ustr

record product =
  ManufacturerProductNumber :: ustr
  ProductDescription :: ustr
  ManufacturerName :: ustr
  Parameters :: "parameter list"
  ProductVariations :: "variation list"

record search_response =
  ExactMatches :: "product list"
  Products :: "product list"

section \<open>extract_product_info\<close>

text \<open>
  The first loop: the value of the first parameter whose text is
  \<^verbatim>\<open>"Supplier Device Package"\<close> becomes the footprint (\<^verbatim>\<open>break\<close>).
\<close>

definition supplier_device_package :: "parameter list \<Rightarrow> ustr option" where
  "supplier_device_package ps =
     map_option ValueText (find (\<lambda>p. ParameterText p = ascii ''Supplier Device Package'') ps)"

text \<open>
  \<^verbatim>\<open>best_unit_price\<close> starts as \<^verbatim>\<open>float("inf")\<close>, written \<open>None\<close>: every price is below
  it. \<open>below_best\<close> is the test \<^verbatim>\<open>unit_price < best_unit_price\<close>.
\<close>

definition below_best :: "real \<Rightarrow> real option \<Rightarrow> bool" where
  "below_best p best = (case best of None \<Rightarrow> True | Some b \<Rightarrow> p < b)"

text \<open>The body of the inner loop, on the state (\<^verbatim>\<open>best_unit_price\<close>, \<^verbatim>\<open>data\<close>).\<close>

definition pricing_step ::
  "int \<Rightarrow> ustr \<Rightarrow> int \<Rightarrow> real option \<times> part \<Rightarrow> pricing \<Rightarrow> real option \<times> part" where
  "pricing_step order_quantity digikey_pn avail st pr =
     (if BreakQuantity pr > order_quantity then st
      else if below_best (UnitPrice pr) (fst st)
           then (Some (UnitPrice pr),
                 (snd st)\<lparr>vendor_part_number := Some digikey_pn,
                           unit_price := Some (UnitPrice pr),
                           available := Some avail\<rparr>)
           else st)"

text \<open>The body of the outer loop.\<close>

definition variation_step :: "int \<Rightarrow> real option \<times> part \<Rightarrow> variation \<Rightarrow> real option \<times> part" where
  "variation_step order_quantity st v =
     (if QuantityAvailableforPackageType v = 0 \<or> MinimumOrderQuantity v > order_quantity then st
      else foldl (pricing_step order_quantity (DigiKeyProductNumber v)
                    (QuantityAvailableforPackageType v)) st (StandardPricing v))"

definition extract_product_info :: "product \<Rightarrow> int \<Rightarrow> part" where
  "extract_product_info response order_quantity =
     (let data = empty_part\<lparr>
            mpn := Some (ManufacturerProductNumber response),
            description := Some (ProductDescription response),
            manufacturer := Some (ManufacturerName response),
            vendor := Some (ascii ''DigiKey''),
            footprint := supplier_device_package (Parameters response)\<rparr>
      in snd (foldl (variation_step order_quantity) (None, data) (ProductVariations response)))"

section \<open>The world outside: cache files, the clock, the catalog\<close>

text \<open>
  The files under \<^verbatim>\<open>~/Library/Caches/digikey\<close> and the requests sent are the state of the
  world. \<open>token_cache\<close> is the content of \<^verbatim>\<open>token.json\<close> (\<open>None\<close> when the file does not
  exist); \<open>search_cache\<close> maps a file name, without \<^verbatim>\<open>.json\<close>, to the content of that
  file under \<^verbatim>\<open>search/\<close>; \<open>http_log\<close> lists the requests issued so far and
  \<open>clock_reads\<close> counts the calls of \<^verbatim>\<open>time.time()\<close>.
\<close>

record token_json =
  access_token :: ustr
  expires_in :: real

record token_file = token_json +
  expires_at :: real

record cache_data =
  response :: search_response
  cached_at :: real

datatype http_request =
    PostToken ustr ustr
  | PostSearch ustr ustr

record world =
  token_cache :: "token_file option"
  search_cache :: "ustr \<Rightarrow> cache_data option"
  http_log :: "http_request list"
  clock_reads :: nat

text \<open>
  What the program cannot decide: the value of the \<open>n\<close>-th reading of the clock, and the
  answers of the two endpoints, which may depend on everything sent so far (the request
  itself is the last of the list). The token endpoint answers with the JSON of a token or
  with the error that \<^verbatim>\<open>requests.post\<close> or \<^verbatim>\<open>raise_for_status\<close> raises; the search
  endpoint answers with a status code, the JSON and the text of the body.
\<close>

record env =
  clock :: "nat \<Rightarrow> real"
  token_endpoint :: "http_request list \<Rightarrow> error + token_json"
  search_endpoint :: "http_request list \<Rightarrow> nat \<times> search_response \<times> ustr"

definition time_time :: "env \<Rightarrow> world \<Rightarrow> real \<times> world" where
  "time_time e w = (clock e (clock_reads w), w\<lparr>clock_reads := Suc (clock_reads w)\<rparr>)"

definition CLIENT_ID :: ustr where
  "CLIENT_ID = ascii ''fUmWDtTt1M7ZCDr6mrFK2upi4Cbe04LD''"

definition CLIENT_SECRET :: ustr where
  "CLIENT_SECRET = ascii ''IL4HaP2js9m5ircd''"

section \<open>get_digikey_token\<close>

text \<open>The part after \<^verbatim>\<open># Get new token\<close>.\<close>

definition fetch_token :: "env \<Rightarrow> ustr \<Rightarrow> ustr \<Rightarrow> world \<Rightarrow> (error + ustr) \<times> world" where
  "fetch_token e client_id client_secret w =
     (let w1 = w\<lparr>http_log := http_log w @ [PostToken client_id client_secret]\<rparr>
      in case token_endpoint e (http_log w1) of
           Inl err \<Rightarrow> (Inl err, w1)
         | Inr tj \<Rightarrow>
             (let (now, w2) = time_time e w1;
                  token_data = \<lparr>access_token = access_token tj, expires_in = expires_in tj,
                                expires_at = now + expires_in tj\<rparr>
              in (Inr (access_token token_data), w2\<lparr>token_cache := Some token_data\<rparr>)))"

definition get_digikey_token :: "env \<Rightarrow> ustr \<Rightarrow> ustr \<Rightarrow> world \<Rightarrow> (error + ustr) \<times> world" where
  "get_digikey_token e client_id client_secret w =
     (case token_cache w of
        Some token_data \<Rightarrow>
          (let (now, w1) = time_time e w
           in if now < expires_at token_data - 60 then (Inr (access_token token_data), w1)
              else fetch_token e client_id client_secret w1)
      | None \<Rightarrow> fetch_token e client_id client_secret w)"

section \<open>get_cached_digikey_response\<close>

text \<open>
  The request is identified by the bearer token of its headers and by its keywords
  (\<^verbatim>\<open>json_data["Keywords"]\<close>); the URL and the limit are constants. The line printed
  before the request is not modelled.
\<close>

definition fetch_search ::
  "env \<Rightarrow> ustr \<Rightarrow> ustr \<Rightarrow> world \<Rightarrow> (error + search_response) \<times> world" where
  "fetch_search e token keywords w =
     (let w1 = w\<lparr>http_log := http_log w @ [PostSearch token keywords]\<rparr>;
          (status_code, json, body) = search_endpoint e (http_log w1)
      in if status_code = 200 then
           (let (now, w2) = time_time e w1;
                cache = \<lparr>response = json, cached_at = now\<rparr>
            in (Inr json,
                w2\<lparr>search_cache := (search_cache w2)(normalize_filename keywords \<mapsto> cache)\<rparr>))
         else (Inl (Exception (ascii ''API request failed: '' @ body)), w1))"

definition get_cached_digikey_response ::
  "env \<Rightarrow> ustr \<Rightarrow> ustr \<Rightarrow> world \<Rightarrow> (error + search_response) \<times> world" where
  "get_cached_digikey_response e token keywords w =
     (case search_cache w (normalize_filename keywords) of
        Some cached \<Rightarrow>
          (let (now, w1) = time_time e w
           in if now < cached_at cached + 3600 * 4 then (Inr (response cached), w1)
              else fetch_search e token keywords w1)
      | None \<Rightarrow> fetch_search e token keywords w)"

section \<open>search_digikey_info\<close>

text \<open>The choice of the product, once the response is there.\<close>

definition choose_product :: "ustr \<Rightarrow> search_response \<Rightarrow> error + product" where
  "choose_product m r =
     (case ExactMatches r of
        p # ps \<Rightarrow> Inr p
      | [] \<Rightarrow>
          (case Products r of
             p # ps \<Rightarrow>
               (if length (Products r) > 1
                then Inl (Exception (ascii ''Multiple products found for MPN: '' @ m))
                else Inr p)
           | [] \<Rightarrow> Inl (Exception (ascii ''No products found for MPN: '' @ m))))"

definition search_digikey_info :: "env \<Rightarrow> ustr \<Rightarrow> int \<Rightarrow> world \<Rightarrow> (error + part) \<times> world" where
  "search_digikey_info e m order_quantity w =
     (case get_digikey_token e CLIENT_ID CLIENT_SECRET w of
        (Inl err, w1) \<Rightarrow> (Inl err, w1)
      | (Inr token, w1) \<Rightarrow>
          (case get_cached_digikey_response e token m w1 of
             (Inl err, w2) \<Rightarrow> (Inl err, w2)
           | (Inr r, w2) \<Rightarrow>
               (case choose_product m r of
                  Inl err \<Rightarrow> (Inl err, w2)
                | Inr p \<Rightarrow> (Inr (extract_product_info p order_quantity), w2))))"

section \<open>parse_bom_row and parse_bom\<close>

text \<open>
  A row of the CSV file, as \<^verbatim>\<open>csv.DictReader\<close> gives it, with the three columns the
  program reads. \<open>split_count s\<close> is \<^verbatim>\<open>len(s.split(","))\<close>: one more than the number of
  commas.
\<close>

record bom_line =
  LCSC :: ustr
  Designator :: ustr
  Comment :: ustr

definition split_count :: "ustr \<Rightarrow> int" where
  "split_count s = int (Suc (count_list s 44))"

text \<open>
  \<^verbatim>\<open>data.update(search_digikey_info(data["mpn"], order_quantity))\<close>; the lookup of
  \<^verbatim>\<open>data["mpn"]\<close> raises \<^verbatim>\<open>KeyError\<close> when the key is missing.
\<close>

definition update_with_search ::
  "env \<Rightarrow> part \<Rightarrow> int \<Rightarrow> world \<Rightarrow> (error + part) \<times> world" where
  "update_with_search e data order_quantity w =
     (case mpn data of
        None \<Rightarrow> (Inl (KeyError (ascii ''mpn'')), w)
      | Some m \<Rightarrow>
          (case search_digikey_info e m order_quantity w of
             (Inl err, w1) \<Rightarrow> (Inl err, w1)
           | (Inr info, w1) \<Rightarrow> (Inr (dict_update data info), w1)))"

text \<open>The last two lines before the \<^verbatim>\<open>return\<close>.\<close>

definition set_total_price :: "part \<Rightarrow> int \<Rightarrow> part" where
  "set_total_price data order_quantity =
     (case unit_price data of
        Some p \<Rightarrow> data\<lparr>total_price := Some (p * real_of_int order_quantity)\<rparr>
      | None \<Rightarrow> data)"

definition parse_bom_row ::
  "env \<Rightarrow> (nat \<Rightarrow> nat option) \<Rightarrow> bom_line \<Rightarrow> int \<Rightarrow> world \<Rightarrow> (error + part) \<times> world" where
  "parse_bom_row e nd row board_quantity w =
     (let data = empty_part\<lparr>
            mpn := Some (LCSC row),
            designators := Some (Designator row),
            quantity := Some (split_count (Designator row)),
            description := Some (Comment row)\<rparr>;
          order_quantity = split_count (Designator row) * board_quantity;
          (res, w1) =
            (if contains (ascii ''Resistor'') (Comment row) then
               (case parse_resistor_comment (Comment row) of
                  Inl err \<Rightarrow> (Inl err, w)
                | Inr r \<Rightarrow> update_with_search e (dict_update data r) order_quantity w)
             else if contains (ascii ''Capacitor'') (Comment row) then
               (case parse_capacitor_comment nd (Comment row) of
                  Inl err \<Rightarrow> (Inl err, w)
                | Inr r \<Rightarrow> update_with_search e (dict_update data r) order_quantity w)
             else if contains (ascii ''Do not populate'') (Comment row) then
               (Inr (dict_update data
                      (empty_part\<lparr>mpn := Some (ascii ''DNI''), dni := Some (ascii ''DNI''),
                         description := Some (ascii ''Do not install'')\<rparr>)), w)
             else
               update_with_search e (data\<lparr>mpn := Some (rewrite_mpn (LCSC row))\<rparr>)
                 order_quantity w)
      in (case res of
            Inl err \<Rightarrow> (Inl err, w1)
          | Inr d \<Rightarrow> (Inr (set_total_price d order_quantity), w1)))"

text \<open>
  The list comprehension of \<^verbatim>\<open>parse_bom\<close>: the rows in order, each in the world the
  previous one left; the first exception ends the run.
\<close>

fun parse_rows ::
  "env \<Rightarrow> (nat \<Rightarrow> nat option) \<Rightarrow> bom_line list \<Rightarrow> int \<Rightarrow> world \<Rightarrow> (error + part list) \<times> world" where
  "parse_rows e nd [] board_quantity w = (Inr [], w)"
| "parse_rows e nd (row # rows) board_quantity w =
     (case parse_bom_row e nd row board_quantity w of
        (Inl err, w1) \<Rightarrow> (Inl err, w1)
      | (Inr d, w1) \<Rightarrow>
          (case parse_rows e nd rows board_quantity w1 of
             (Inl err, w2) \<Rightarrow> (Inl err, w2)
           | (Inr ds, w2) \<Rightarrow> (Inr (d # ds), w2)))"

definition parse_bom ::
  "env \<Rightarrow> (nat \<Rightarrow> nat option) \<Rightarrow> bom_line list \<Rightarrow> int \<Rightarrow> world \<Rightarrow> (error + part list) \<times> world" where
  "parse_bom e nd file board_quantity w = parse_rows e nd file board_quantity w"

section \<open>main\<close>

text \<open>
  \<^verbatim>\<open>data.sort(key=lambda x: float(x.get("total_price", 0.0)), reverse=True)\<close>.
  \<^verbatim>\<open>list.sort\<close> is a stable sort, and with \<^verbatim>\<open>reverse=True\<close> it reverses the list, sorts
  it stably in ascending order and reverses the result. \<open>sort_key\<close> is a stable sort,
  and a stable sort has one result.
\<close>

definition total_price_key :: "part \<Rightarrow> real" where
  "total_price_key x = (case total_price x of Some t \<Rightarrow> t | None \<Rightarrow> 0.0)"

definition sort_reverse :: "('a \<Rightarrow> real) \<Rightarrow> 'a list \<Rightarrow> 'a list" where
  "sort_reverse f xs = rev (sort_key f (rev xs))"

text \<open>
  A cell of the printed table: \<^verbatim>\<open>row.get(name, "")\<close>, formatted as \<^verbatim>\<open>$%.2f\<close> (\<open>CMoney\<close>)
  in the two price columns when it is not the empty string. The columns are those of
  \<^verbatim>\<open>SIMPLE_COLUMNS\<close>, in its order.
\<close>

datatype cell = CStr ustr | CInt int | CMoney real

definition str_cell :: "ustr option \<Rightarrow> cell" where
  "str_cell v = (case v of Some s \<Rightarrow> CStr s | None \<Rightarrow> CStr [])"

definition int_cell :: "int option \<Rightarrow> cell" where
  "int_cell v = (case v of Some i \<Rightarrow> CInt i | None \<Rightarrow> CStr [])"

definition money_cell :: "real option \<Rightarrow> cell" where
  "money_cell v = (case v of Some p \<Rightarrow> CMoney p | None \<Rightarrow> CStr [])"

definition simple_row :: "part \<Rightarrow> cell list" where
  "simple_row row =
     [str_cell (mpn row), int_cell (quantity row), str_cell (dni row),
      str_cell (manufacturer row), str_cell (vendor row), str_cell (vendor_part_number row),
      str_cell (value_str row), str_cell (footprint row), str_cell (description row),
      int_cell (available row), money_cell (unit_price row), money_cell (total_price row)]"

text \<open>
  What \<^verbatim>\<open>main\<close> prints: the table, then the line of the totals (the total price, the
  price per board and the number of boards). \<^verbatim>\<open>sum\<close> adds the terms to 0 from the left.
  The division raises \<^verbatim>\<open>ZeroDivisionError\<close> when \<^verbatim>\<open>--boards\<close> is 0, after the table is
  printed. The spreadsheet written for \<^verbatim>\<open>--sierra\<close> is not modelled.
\<close>

datatype printed = Table "cell list list" | TotalLine real real int

definition sum_total_price :: "part list \<Rightarrow> real" where
  "sum_total_price data = foldl (\<lambda>acc row. acc + total_price_key row) 0 data"

definition main ::
  "env \<Rightarrow> (nat \<Rightarrow> nat option) \<Rightarrow> bom_line list \<Rightarrow> int \<Rightarrow> world
     \<Rightarrow> (error + unit) \<times> printed list \<times> world" where
  "main e nd bom board_count w =
     (case parse_bom e nd bom board_count w of
        (Inl err, w1) \<Rightarrow> (Inl err, [], w1)
      | (Inr parsed, w1) \<Rightarrow>
          (let data = sort_reverse total_price_key parsed;
               simple_data = map simple_row data;
               total = sum_total_price data
           in if board_count = 0 then (Inl ZeroDivisionError, [Table simple_data], w1)
              else (Inr (),
                    [Table simple_data,
                     TotalLine total (total / real_of_int board_count) board_count], w1)))"

section \<open>Notions used to state the properties\<close>

text \<open>
  Used to state the properties of \<^verbatim>\<open>extract_product_info\<close>: a variation and one of its
  price breaks qualify for an order quantity when the variation has stock, its minimum
  order quantity is at most the order quantity, and so is the break quantity.
  \<open>candidates\<close> lists the qualifying pairs in the order the two loops meet them.
\<close>

definition qualifies :: "int \<Rightarrow> variation \<Rightarrow> pricing \<Rightarrow> bool" where
  "qualifies order_quantity v pr =
     (QuantityAvailableforPackageType v \<noteq> 0 \<and> MinimumOrderQuantity v \<le> order_quantity
      \<and> BreakQuantity pr \<le> order_quantity)"

definition candidates :: "int \<Rightarrow> variation list \<Rightarrow> (variation \<times> pricing) list" where
  "candidates order_quantity vs =
     concat (map (\<lambda>v. map (\<lambda>pr. (v, pr)) (filter (qualifies order_quantity v) (StandardPricing v))) vs)"

definition candidate_step :: "real option \<times> part \<Rightarrow> variation \<times> pricing \<Rightarrow> real option \<times> part" where
  "candidate_step st c =
     (if below_best (UnitPrice (snd c)) (fst st)
      then (Some (UnitPrice (snd c)),
            (snd st)\<lparr>vendor_part_number := Some (DigiKeyProductNumber (fst c)),
                      unit_price := Some (UnitPrice (snd c)),
                      available := Some (QuantityAvailableforPackageType (fst c))\<rparr>)
      else st)"

text \<open>
  \<open>product_data\<close> is \<^verbatim>\<open>data\<close> before the loop over the variations, and \<open>chosen d c\<close> is
  \<open>d\<close> after the three assignments for the pair \<open>c\<close>.
\<close>

definition product_data :: "product \<Rightarrow> part" where
  "product_data r = empty_part\<lparr>
      mpn := Some (ManufacturerProductNumber r),
      description := Some (ProductDescription r),
      manufacturer := Some (ManufacturerName r),
      vendor := Some (ascii ''DigiKey''),
      footprint := supplier_device_package (Parameters r)\<rparr>"

definition chosen :: "part \<Rightarrow> variation \<times> pricing \<Rightarrow> part" where
  "chosen d c = d\<lparr>vendor_part_number := Some (DigiKeyProductNumber (fst c)),
                 unit_price := Some (UnitPrice (snd c)),
                 available := Some (QuantityAvailableforPackageType (fst c))\<rparr>"

text \<open>A product with a reel, a cut tape and a variation without stock.\<close>

definition example_product :: product where
  "example_product =
     \<lparr>ManufacturerProductNumber = ascii ''ERJ-2RKF1002X'',
      ProductDescription = ascii ''RES 10K OHM 1% 1/10W 0402'',
      ManufacturerName = ascii ''Panasonic Electronic Components'',
      Parameters = [\<lparr>ParameterText = ascii ''Supplier Device Package'', ValueText = ascii ''0402''\<rparr>],
      ProductVariations =
        [\<lparr>DigiKeyProductNumber = ascii ''P10.0KLTR-ND'',
          QuantityAvailableforPackageType = 50000, MinimumOrderQuantity = 10000,
          StandardPricing = [\<lparr>BreakQuantity = 10000, UnitPrice = 0.01\<rparr>]\<rparr>,
         \<lparr>DigiKeyProductNumber = ascii ''P10.0KLCT-ND'',
          QuantityAvailableforPackageType = 8000, MinimumOrderQuantity = 1,
          StandardPricing = [\<lparr>BreakQuantity = 1, UnitPrice = 0.1\<rparr>,
                             \<lparr>BreakQuantity = 10, UnitPrice = 0.05\<rparr>,
                             \<lparr>BreakQuantity = 100, UnitPrice = 0.02\<rparr>]\<rparr>,
         \<lparr>DigiKeyProductNumber = ascii ''P10.0KLDKR-ND'',
          QuantityAvailableforPackageType = 0, MinimumOrderQuantity = 1,
          StandardPricing = [\<lparr>BreakQuantity = 1, UnitPrice = 0.03\<rparr>]\<rparr>]\<rparr>"


text \<open>
  Every row that \<^verbatim>\<open>parse_bom_row\<close> returns is \<open>set_total_price\<close> of a dictionary without
  prices updated with either the \<^verbatim>\<open>DNI\<close> keys or the information of a product.
\<close>

definition row_base :: "part \<Rightarrow> bom_line \<Rightarrow> bool" where
  "row_base base row =
     (quantity base = Some (split_count (Designator row)) \<and> unit_price base = None
      \<and> total_price base = None \<and> vendor_part_number base = None \<and> available base = None)"


section \<open>An example run\<close>

text \<open>
  A world with a valid token and a cached response for one resistor, a catalog that
  refuses every request, and a BOM of two lines.
\<close>

definition example_response :: search_response where
  "example_response = \<lparr>ExactMatches = [], Products = [example_product]\<rparr>"

definition example_env :: env where
  "example_env =
     \<lparr>clock = (\<lambda>n. 1000 + real n),
      token_endpoint = (\<lambda>log. Inl HTTPError),
      search_endpoint = (\<lambda>log. (404, \<lparr>ExactMatches = [], Products = []\<rparr>, ascii ''Not Found''))\<rparr>"

definition example_world :: world where
  "example_world =
     \<lparr>token_cache = Some \<lparr>access_token = ascii ''token'', expires_in = 600, expires_at = 1500\<rparr>,
      search_cache = [ascii ''ERJ-2RKF1002X'' \<mapsto> \<lparr>response = example_response, cached_at = 0\<rparr>],
      http_log = [],
      clock_reads = 0\<rparr>"

definition example_resistor_line :: bom_line where
  "example_resistor_line =
     \<lparr>LCSC = ascii ''C25744'', Designator = ascii ''R1,R2'',
      Comment = ascii ''Resistor '' @ [plus_minus] @ ascii ''1% 10k'' @ [Omega] @ ascii '' 0402''\<rparr>"



definition example_resistor_row :: part where
  "example_resistor_row =
     \<lparr>mpn = Some (ascii ''ERJ-2RKF1002X''), designators = Some (ascii ''R1,R2''),
      quantity = Some 2, description = Some (ascii ''RES 10K OHM 1% 1/10W 0402''),
      dni = None, manufacturer = Some (ascii ''Panasonic Electronic Components''),
      vendor = Some (ascii ''DigiKey''), vendor_part_number = Some (ascii ''P10.0KLCT-ND''),
      value_str = Some (ascii ''10k'' @ [Omega]), footprint = Some (ascii ''0402''),
      available = Some 8000, unit_price = Some 0.05, total_price = Some 1\<rparr>"





section \<open>The rewrite loop terminates\<close>

lemma rewrite_mpn_outside: "MPN_MAP m = None \<Longrightarrow> rewrite_mpn m = m"
  by (subst rewrite_mpn.simps) simp

lemma rewrite_mpn_step: "MPN_MAP m = Some m' \<Longrightarrow> rewrite_mpn m = rewrite_mpn m'"
  by (subst rewrite_mpn.simps) simp

lemma rewrite_mpn_image:
  assumes "MPN_MAP m = Some m'"
  shows "MPN_MAP (rewrite_mpn m') = None \<and> rewrite_mpn_fuel 1 m' = Some (rewrite_mpn m')"
  using MPN_MAP_cases[OF assms]
  by (auto simp: MPN_MAP_values rewrite_mpn_outside rewrite_mpn_step)

lemma rewrite_mpn_fixed_point: "MPN_MAP (rewrite_mpn m) = None"
proof (cases "MPN_MAP m")
  case None
  then show ?thesis by (simp add: rewrite_mpn_outside)
next
  case (Some m')
  with rewrite_mpn_image[OF Some] show ?thesis by (simp add: rewrite_mpn_step)
qed

text \<open>
  C8: for every starting part identifier the rewrite loop of \<^verbatim>\<open>parse_bom_row\<close>
  terminates (the loop is the total function \<open>rewrite_mpn\<close>, by the measure \<open>mpn_rank\<close>);
  its result is an identifier that is not a key of \<^verbatim>\<open>MPN_MAP\<close>, and it is reached in at
  most two rewrites: the loop bounded by two rewrites returns, with the same identifier.
\<close>

theorem rewrite_mpn_terminates:
  "MPN_MAP (rewrite_mpn m0) = None \<and> rewrite_mpn_fuel 2 m0 = Some (rewrite_mpn m0)"
proof (cases "MPN_MAP m0")
  case None
  then show ?thesis by (simp add: rewrite_mpn_outside)
next
  case (Some m')
  with rewrite_mpn_image[OF Some] show ?thesis
    by (simp add: rewrite_mpn_step numeral_2_eq_2)
qed

theorem rewrite_mpn_terminates_witness:
  "rewrite_mpn (ascii ''C2040'') = ascii ''SC0914(13)'' \<and> MPN_MAP (ascii ''SC0914(13)'') = None
    \<and> rewrite_mpn_fuel 2 (ascii ''C2040'') = Some (ascii ''SC0914(13)'')
    \<and> rewrite_mpn_fuel 1 (ascii ''C2040'') = None"
proof -
  have a: "MPN_MAP (ascii ''C2040'') = Some (ascii ''RP2040'')"
    by (simp add: MPN_MAP_def)
  have e: "rewrite_mpn (ascii ''C2040'') = ascii ''SC0914(13)''"
    by (simp add: rewrite_mpn_step[OF a] rewrite_mpn_step[OF MPN_MAP_values(1)]
        rewrite_mpn_outside[OF MPN_MAP_values(2)])
  show ?thesis
    using rewrite_mpn_terminates[of "ascii ''C2040''"] unfolding e
    by (simp add: a MPN_MAP_values)
qed


section \<open>normalize_filename is idempotent and its output is clean\<close>

lemma set_sub_underscores: "set (sub_underscores s) \<subseteq> set s"
proof (induction s rule: sub_underscores.induct)
  case 1 show ?case by simp
next
  case (2 c cs)
  show ?case
  proof (cases "c = underscore")
    case True
    with 2 have "set (sub_underscores (dropWhile (\<lambda>d. d = underscore) cs)) \<subseteq> set cs"
      using set_dropWhileD by fastforce
    with True show ?thesis by auto
  next
    case False with 2 show ?thesis by auto
  qed
qed


lemma no_double_append: "no_double (a @ [underscore, underscore] @ b) = False"
  by (induction a rule: no_double.induct) auto

lemma no_double_decomp: "\<not> no_double s \<Longrightarrow> \<exists>a b. s = a @ [underscore, underscore] @ b"
proof (induction s rule: no_double.induct)
  case (1 c d cs)
  show ?case
  proof (cases "c = underscore \<and> d = underscore")
    case True
    then have "c # d # cs = [] @ [underscore, underscore] @ cs" by simp
    then show ?thesis by blast
  next
    case False
    with 1 obtain a b where "d # cs = a @ [underscore, underscore] @ b" by auto
    then have "c # d # cs = (c # a) @ [underscore, underscore] @ b" by simp
    then show ?thesis by blast
  qed
qed simp_all

lemma no_double_iff: "no_double s \<longleftrightarrow> \<not> (\<exists>a b. s = a @ [underscore, underscore] @ b)"
  using no_double_append no_double_decomp by blast

lemma no_double_Cons:
  "no_double (c # t) = ((t \<noteq> [] \<longrightarrow> \<not> (c = underscore \<and> hd t = underscore)) \<and> no_double t)"
  by (cases t) simp_all

lemma sub_underscores_Nil_iff: "sub_underscores s = [] \<longleftrightarrow> s = []"
  by (cases s) simp_all

lemma hd_sub_underscores: "hd (sub_underscores s) = hd s"
  by (cases s) simp_all

lemma no_double_sub_underscores: "no_double (sub_underscores s)"
proof (induction s rule: sub_underscores.induct)
  case 1 show ?case by simp
next
  case (2 c cs)
  show ?case
  proof (cases "c = underscore")
    case True
    let ?r = "dropWhile (\<lambda>d. d = underscore) cs"
    from True 2(1) have IH: "no_double (sub_underscores ?r)" by blast
    from True have eq: "sub_underscores (c # cs) = underscore # sub_underscores ?r" by simp
    have "?r \<noteq> [] \<Longrightarrow> hd ?r \<noteq> underscore" by (rule hd_dropWhile)
    then have "sub_underscores ?r \<noteq> [] \<longrightarrow> hd (sub_underscores ?r) \<noteq> underscore"
      by (simp only: sub_underscores_Nil_iff hd_sub_underscores) blast
    with IH show ?thesis unfolding eq no_double_Cons by blast
  next
    case False
    with 2(2) have IH: "no_double (sub_underscores cs)" by blast
    from False have eq: "sub_underscores (c # cs) = c # sub_underscores cs" by simp
    from IH False show ?thesis unfolding eq no_double_Cons by blast
  qed
qed

lemma no_double_dropWhile: "no_double s \<Longrightarrow> no_double (dropWhile P s)"
  by (induction s rule: no_double.induct) auto

lemma no_double_snoc: "no_double (s @ [c]) \<Longrightarrow> no_double s"
  by (induction s rule: no_double.induct) auto

lemma no_double_rev_dropWhile_rev: "no_double s \<Longrightarrow> no_double (rev (dropWhile P (rev s)))"
proof (induction s rule: rev_induct)
  case Nil show ?case by simp
next
  case (snoc x xs)
  then show ?case by (auto dest: no_double_snoc)
qed

lemma no_double_strip: "no_double s \<Longrightarrow> no_double (strip_underscores s)"
  unfolding strip_underscores_def by (intro no_double_rev_dropWhile_rev no_double_dropWhile)

lemma set_dropWhile_subset: "set (dropWhile P xs) \<subseteq> set xs"
  by (auto dest: set_dropWhileD)

lemma set_strip: "set (strip_underscores s) \<subseteq> set s"
proof -
  let ?a = "dropWhile (\<lambda>c. c = underscore) s"
  have "set (strip_underscores s) = set (dropWhile (\<lambda>c. c = underscore) (rev ?a))"
    by (simp only: strip_underscores_def set_rev)
  also have "\<dots> \<subseteq> set (rev ?a)" by (rule set_dropWhile_subset)
  also have "\<dots> = set ?a" by (simp only: set_rev)
  also have "\<dots> \<subseteq> set s" by (rule set_dropWhile_subset)
  finally show ?thesis .
qed

lemma last_dropWhile: "dropWhile P xs \<noteq> [] \<Longrightarrow> last (dropWhile P xs) = last xs"
  by (metis last_appendR takeWhile_dropWhile_id)

lemma strip_ends:
  assumes ne: "strip_underscores s \<noteq> []"
  shows "hd (strip_underscores s) \<noteq> underscore \<and> last (strip_underscores s) \<noteq> underscore"
proof -
  let ?P = "\<lambda>c. c = underscore"
  let ?a = "dropWhile ?P s"
  let ?b = "dropWhile ?P (rev ?a)"
  have s: "strip_underscores s = rev ?b" by (simp only: strip_underscores_def)
  from ne have b: "?b \<noteq> []" unfolding s by (simp only: rev_is_Nil_conv not_False_eq_True)
  then have hb: "hd ?b \<noteq> underscore" by (rule hd_dropWhile)
  from b have "rev ?a \<noteq> []" by (metis dropWhile.simps(1))
  then have a: "?a \<noteq> []" by (simp only: rev_is_Nil_conv not_False_eq_True)
  then have ha: "hd ?a \<noteq> underscore" by (rule hd_dropWhile)
  have "last ?b = last (rev ?a)" using b by (rule last_dropWhile)
  also have "\<dots> = hd ?a" using a by (simp only: last_rev)
  finally have lb: "last ?b \<noteq> underscore" using ha by simp
  have "hd (rev ?b) = last ?b" using b by (simp only: hd_rev)
  moreover have "last (rev ?b) = hd ?b" using b by (simp only: last_rev)
  ultimately show ?thesis unfolding s using hb lb by simp
qed

lemma sub_invalid_id: "set s \<inter> set invalid_filename_chars = {} \<Longrightarrow> sub_invalid s = s"
  unfolding sub_invalid_def by (induction s) auto

lemma sub_underscores_id: "no_double s \<Longrightarrow> sub_underscores s = s"
proof (induction s rule: sub_underscores.induct)
  case 1 show ?case by simp
next
  case (2 c cs)
  show ?case
  proof (cases "c = underscore")
    case True
    with 2(3) have "cs = [] \<or> hd cs \<noteq> underscore" by (cases cs) auto
    then have dw: "dropWhile (\<lambda>d. d = underscore) cs = cs" by (cases cs) auto
    from 2(3) have "no_double cs" by (cases cs) auto
    with 2(1)[OF True] dw True show ?thesis by simp
  next
    case False
    from 2(3) have "no_double cs" by (cases cs) auto
    with 2(2)[OF False] False show ?thesis by simp
  qed
qed

lemma strip_id:
  "s = [] \<or> (hd s \<noteq> underscore \<and> last s \<noteq> underscore) \<Longrightarrow> strip_underscores s = s"
proof (cases s)
  case Nil then show ?thesis by (simp add: strip_underscores_def)
next
  case (Cons c cs)
  assume "s = [] \<or> (hd s \<noteq> underscore \<and> last s \<noteq> underscore)"
  with Cons have h: "c \<noteq> underscore" and l: "last s \<noteq> underscore" by auto
  from h Cons have 1: "dropWhile (\<lambda>c. c = underscore) s = s" by simp
  from Cons have "rev s \<noteq> []" by simp
  moreover have "hd (rev s) \<noteq> underscore" using l by (metis hd_rev)
  ultimately have 2: "dropWhile (\<lambda>c. c = underscore) (rev s) = rev s" by (cases "rev s") auto
  show ?thesis unfolding strip_underscores_def 1 2 by simp
qed

lemma underscore_valid: "underscore \<notin> set invalid_filename_chars"
  by (simp add: invalid_filename_chars_def underscore_def ascii_def)

lemma sub_invalid_clean: "set (sub_invalid s) \<inter> set invalid_filename_chars = {}"
  unfolding sub_invalid_def using underscore_valid by (induction s) auto

lemma normalize_clean: "set (normalize_filename s) \<inter> set invalid_filename_chars = {}"
  unfolding normalize_filename_def
  using set_strip[of "sub_underscores (sub_invalid s)"] set_sub_underscores[of "sub_invalid s"]
    sub_invalid_clean[of s] by blast

text \<open>
  C10: \<^verbatim>\<open>normalize_filename\<close> is idempotent, and its output contains none of the
  characters \<^verbatim>\<open>/ < > : " \ | ? * ,\<close>, no doubled underscore, and no leading or trailing
  underscore.
\<close>

theorem normalize_filename_idempotent_clean:
  "normalize_filename (normalize_filename s) = normalize_filename s
   \<and> set (normalize_filename s) \<inter> set invalid_filename_chars = {}
   \<and> \<not> (\<exists>a b. normalize_filename s = a @ [underscore, underscore] @ b)
   \<and> (normalize_filename s = [] \<or>
        (hd (normalize_filename s) \<noteq> underscore \<and> last (normalize_filename s) \<noteq> underscore))"
proof -
  let ?r = "normalize_filename s"
  have c: "set ?r \<inter> set invalid_filename_chars = {}" by (rule normalize_clean)
  have d: "no_double ?r" unfolding normalize_filename_def
    by (intro no_double_strip no_double_sub_underscores)
  have e: "?r = [] \<or> (hd ?r \<noteq> underscore \<and> last ?r \<noteq> underscore)"
    unfolding normalize_filename_def using strip_ends by blast
  have "normalize_filename ?r = strip_underscores (sub_underscores (sub_invalid ?r))"
    by (simp only: normalize_filename_def)
  also have "\<dots> = ?r" using c d e by (simp only: sub_invalid_id sub_underscores_id strip_id)
  finally show ?thesis using c d e unfolding no_double_iff by blast
qed

theorem normalize_filename_idempotent_clean_witness:
  "normalize_filename (ascii ''/RC0402:__10k,'') = ascii ''RC0402_10k''
   \<and> normalize_filename (normalize_filename (ascii ''/RC0402:__10k,'')) = ascii ''RC0402_10k''"
  using normalize_filename_idempotent_clean [of "ascii ''/RC0402:__10k,''"]
  by (simp add: normalize_filename_def strip_underscores_def sub_invalid_def
      invalid_filename_chars_def underscore_def ascii_def)

section \<open>Decoding resistor and capacitor comments\<close>

lemma re_search_hit: "m s = Some r \<Longrightarrow> re_search m s = Some r"
  by (cases s) simp_all

lemma re_search_skip:
  "(\<forall>i<length pre. m (drop i (pre @ s)) = None) \<Longrightarrow> re_search m (pre @ s) = re_search m s"
proof (induction pre)
  case Nil
  show ?case by simp
next
  case (Cons c pre)
  from Cons.prems have "m (drop 0 ((c # pre) @ s)) = None" by blast
  then have here: "m (c # pre @ s) = None" by simp
  have "\<forall>i<length pre. m (drop i (pre @ s)) = None"
  proof (intro allI impI)
    fix i assume "i < length pre"
    then have "Suc i < length (c # pre)" by simp
    with Cons.prems have "m (drop (Suc i) ((c # pre) @ s)) = None" by blast
    then show "m (drop i (pre @ s)) = None" by simp
  qed
  with Cons.IH have "re_search m (pre @ s) = re_search m s" by blast
  with here show ?case by simp
qed

lemma RESISTOR_VALUE_MAP_ERJ_keys:
  "RESISTOR_VALUE_MAP_ERJ v = Some code \<Longrightarrow>
     v \<in> {ascii ''1.5k'' @ [Omega], ascii ''10k'' @ [Omega], ascii ''1k'' @ [Omega],
          ascii ''26.1'' @ [Omega], ascii ''4.7k'' @ [Omega], ascii ''220'' @ [Omega],
          ascii ''510'' @ [Omega], ascii ''5.6k'' @ [Omega], ascii ''100k'' @ [Omega],
          ascii ''60.4'' @ [Omega], ascii ''1.2k'' @ [Omega], ascii ''180'' @ [Omega]}"
  unfolding RESISTOR_VALUE_MAP_ERJ_def by (drule map_of_SomeD) auto

lemma takeWhile_unit_rest:
  "rest = [] \<or> \<not> is_unit_char (hd rest) \<Longrightarrow> takeWhile is_unit_char rest = []"
  by (cases rest) auto

lemma match_resistor_value_key:
  assumes "RESISTOR_VALUE_MAP_ERJ v = Some code" and "rest = [] \<or> \<not> is_unit_char (hd rest)"
  shows "match_resistor_value ((plus_minus # ascii ''1% '') @ v @ rest) = Some v"
proof -
  have t: "takeWhile is_unit_char rest = []" using assms(2) by (rule takeWhile_unit_rest)
  have k: "is_unit_char 107" "is_unit_char Omega" "\<not> is_value_char 107" "\<not> is_value_char Omega"
    "is_value_char 46" "\<And>c. 48 \<le> c \<Longrightarrow> c \<le> 57 \<Longrightarrow> is_value_char c"
    by (simp_all add: is_unit_char_def is_value_char_def is_ascii_digit_def Omega_def)
  from RESISTOR_VALUE_MAP_ERJ_keys[OF assms(1)] show ?thesis
    by (auto simp: match_resistor_value_def starts_with_def ascii_def t k)
qed

lemma footprint_maps:
  "fp \<in> {ascii ''0402'', ascii ''0603''} \<Longrightarrow>
     \<exists>p x. RESISTOR_FOOTPRINT_MAP_ERJ fp = Some p \<and> RESISTOR_FOOTPRINT_MAP_ERJ_SUFFIX fp = Some x"
  by (auto simp: RESISTOR_FOOTPRINT_MAP_ERJ_def RESISTOR_FOOTPRINT_MAP_ERJ_SUFFIX_def)

text \<open>
  C2 (as amended): let the comment be \<open>pre @ "\<plusminus>1% " @ v @ rest\<close>, where no position of
  \<open>pre\<close> matches the pattern \<^verbatim>\<open>\<plusminus>1% ([0-9.]+[k\<Omega>]+)\<close>, \<open>v\<close> is a key of the resistor
  value map and \<open>rest\<close> does not start with \<^verbatim>\<open>k\<close> or \<^verbatim>\<open>\<Omega>\<close>; and let the first four-digit
  substring of the comment be the footprint 0402 or 0603. Then
  \<^verbatim>\<open>parse_resistor_comment\<close> returns a record whose identifier is the footprint's ERJ
  prefix, the code of \<open>v\<close> in the value map and the footprint's suffix, concatenated.
\<close>

theorem parse_resistor_comment_identifier:
  assumes "comment = pre @ (plus_minus # ascii ''1% '') @ v @ rest"
    and "\<forall>i<length pre. match_resistor_value (drop i comment) = None"
    and "RESISTOR_VALUE_MAP_ERJ v = Some code"
    and "rest = [] \<or> \<not> is_unit_char (hd rest)"
    and "re_search match_footprint comment = Some fp"
    and "fp \<in> {ascii ''0402'', ascii ''0603''}"
  shows "\<exists>d erj_prefix erj_suffix.
           parse_resistor_comment comment = Inr d
           \<and> RESISTOR_FOOTPRINT_MAP_ERJ fp = Some erj_prefix
           \<and> RESISTOR_FOOTPRINT_MAP_ERJ_SUFFIX fp = Some erj_suffix
           \<and> mpn d = Some (erj_prefix @ code @ erj_suffix)"
proof -
  let ?s = "(plus_minus # ascii ''1% '') @ v @ rest"
  have "re_search match_resistor_value (pre @ ?s) = re_search match_resistor_value ?s"
    using assms(2) unfolding assms(1) by (rule re_search_skip)
  also have "\<dots> = Some v"
    using match_resistor_value_key[OF assms(3,4)] by (rule re_search_hit)
  finally have val: "re_search match_resistor_value comment = Some v"
    unfolding assms(1) .
  from footprint_maps[OF assms(6)] obtain p x where
    px: "RESISTOR_FOOTPRINT_MAP_ERJ fp = Some p" "RESISTOR_FOOTPRINT_MAP_ERJ_SUFFIX fp = Some x"
    by blast
  have "erj_mpn v fp = Inr (p @ code @ x)"
    by (simp add: erj_mpn_def assms(3) px)
  then show ?thesis
    by (simp add: parse_resistor_comment_def val assms(5) px)
qed

lemmas rc_eval = parse_resistor_comment_def match_resistor_value_def match_footprint_def
  starts_with_def is_value_char_def is_unit_char_def is_ascii_digit_def erj_mpn_def
  RESISTOR_VALUE_MAP_ERJ_def RESISTOR_FOOTPRINT_MAP_ERJ_def RESISTOR_FOOTPRINT_MAP_ERJ_SUFFIX_def
  Omega_def plus_minus_def ascii_def

theorem parse_resistor_comment_identifier_witness:
  "\<exists>d. parse_resistor_comment
         (ascii ''Resistor 10k'' @ [Omega, 32, plus_minus] @ ascii ''1% 10k'' @ [Omega]
            @ ascii '' 0402'') = Inr d
       \<and> mpn d = Some (ascii ''ERJ-2RKF1002X'')"
proof -
  let ?pre = "ascii ''Resistor 10k'' @ [Omega, 32]"
  let ?v = "ascii ''10k'' @ [Omega]"
  let ?rest = "ascii '' 0402''"
  let ?c = "?pre @ (plus_minus # ascii ''1% '') @ ?v @ ?rest"
  have 1: "?c = ?pre @ (plus_minus # ascii ''1% '') @ ?v @ ?rest" by (rule refl)
  have 2: "\<forall>i<length ?pre. match_resistor_value (drop i ?c) = None"
    by (simp add: match_resistor_value_def starts_with_def ascii_def plus_minus_def Omega_def
        All_less_Suc2 del: All_less_Suc)
  have 3: "RESISTOR_VALUE_MAP_ERJ ?v = Some (ascii ''1002'')"
    by (simp add: RESISTOR_VALUE_MAP_ERJ_def)
  have 4: "?rest = [] \<or> \<not> is_unit_char (hd ?rest)"
    by (simp add: is_unit_char_def ascii_def Omega_def)
  have 5: "re_search match_footprint ?c = Some (ascii ''0402'')"
    by (simp add: match_footprint_def is_ascii_digit_def ascii_def plus_minus_def Omega_def)
  have 6: "ascii ''0402'' \<in> {ascii ''0402'', ascii ''0603''}" by simp
  from parse_resistor_comment_identifier[OF 1 2 3 4 5 6] show ?thesis
    by (auto simp: RESISTOR_FOOTPRINT_MAP_ERJ_def RESISTOR_FOOTPRINT_MAP_ERJ_SUFFIX_def ascii_def)
qed

text \<open>
  The claim C2 as it is written asks only that the comment contains \<^verbatim>\<open>\<plusminus>1% \<close> immediately
  followed by a value of the map. The search returns the leftmost match of the pattern:
  in the comment below the first match captures \<^verbatim>\<open>2k\<Omega>\<close>, which is not in the map, and
  the lookup raises \<^verbatim>\<open>KeyError\<close> although \<^verbatim>\<open>\<plusminus>1% 10k\<Omega>\<close> follows. The second lemma shows
  the other way to miss: the greedy group takes every \<^verbatim>\<open>k\<close> and \<^verbatim>\<open>\<Omega>\<close> after the digits.
\<close>

theorem parse_resistor_comment_first_match_counterexample:
  "contains ((plus_minus # ascii ''1% '') @ ascii ''10k'' @ [Omega])
      (ascii ''Resistor '' @ [plus_minus] @ ascii ''1% 2k'' @ [Omega, 32, plus_minus]
         @ ascii ''1% 10k'' @ [Omega] @ ascii '' 0402'')
   \<and> RESISTOR_VALUE_MAP_ERJ (ascii ''10k'' @ [Omega]) = Some (ascii ''1002'')
   \<and> re_search match_footprint
      (ascii ''Resistor '' @ [plus_minus] @ ascii ''1% 2k'' @ [Omega, 32, plus_minus]
         @ ascii ''1% 10k'' @ [Omega] @ ascii '' 0402'') = Some (ascii ''0402'')
   \<and> parse_resistor_comment
      (ascii ''Resistor '' @ [plus_minus] @ ascii ''1% 2k'' @ [Omega, 32, plus_minus]
         @ ascii ''1% 10k'' @ [Omega] @ ascii '' 0402'') = Inl (KeyError (ascii ''2k'' @ [Omega]))"
  by (simp add: rc_eval)

lemma parse_resistor_comment_greedy_unit:
  "parse_resistor_comment
      (ascii ''Resistor '' @ [plus_minus] @ ascii ''1% 10k'' @ [Omega, Omega] @ ascii '' 0402'') = Inl (KeyError (ascii ''10k'' @ [Omega, Omega]))"
  by (simp add: rc_eval)


text \<open>
  C5: a comment that cannot be decoded makes \<^verbatim>\<open>parse_resistor_comment\<close> (respectively
  \<^verbatim>\<open>parse_capacitor_comment\<close>) raise: \<^verbatim>\<open>ValueError("Invalid resistor comment")\<close>
  (\<^verbatim>\<open>"Invalid capacitor comment"\<close>) when one of the searches finds no match, and the
  \<^verbatim>\<open>KeyError\<close> of the missing key when the value, the footprint or the capacitor key is
  not in its table. A record that is returned has all of its six keys.
\<close>

theorem parse_comment_aborts:
  "((re_search match_resistor_value c = None \<or> re_search match_footprint c = None)
      \<longrightarrow> parse_resistor_comment c = Inl (ValueError (ascii ''Invalid resistor comment'')))
   \<and> (\<forall>v fp. re_search match_resistor_value c = Some v \<and> re_search match_footprint c = Some fp
         \<and> (RESISTOR_VALUE_MAP_ERJ v = None \<or> RESISTOR_FOOTPRINT_MAP_ERJ fp = None
              \<or> RESISTOR_FOOTPRINT_MAP_ERJ_SUFFIX fp = None)
        \<longrightarrow> parse_resistor_comment c \<in> {Inl (KeyError v), Inl (KeyError fp)})
   \<and> (\<forall>d. parse_resistor_comment c = Inr d
        \<longrightarrow> mpn d \<noteq> None \<and> value_str d \<noteq> None \<and> footprint d \<noteq> None
            \<and> description d \<noteq> None \<and> vendor d \<noteq> None \<and> manufacturer d \<noteq> None)
   \<and> ((re_search (match_voltage nd) c = None \<or> re_search (match_capacitance nd) c = None
         \<or> re_search match_cap_type c = None \<or> re_search (match_tolerance nd) c = None
         \<or> re_search match_footprint c = None)
      \<longrightarrow> parse_capacitor_comment nd c = Inl (ValueError (ascii ''Invalid capacitor comment'')))
   \<and> (\<forall>vg g1 g2 ct tg fp.
         re_search (match_voltage nd) c = Some vg
         \<and> re_search (match_capacitance nd) c = Some (g1, g2)
         \<and> re_search match_cap_type c = Some ct
         \<and> re_search (match_tolerance nd) c = Some tg
         \<and> re_search match_footprint c = Some fp
         \<and> CAPACITOR_MAP (py_float nd vg, g1 @ g2, ct, py_int nd tg, fp) = None
        \<longrightarrow> parse_capacitor_comment nd c
              = Inl (KeyError_capacitor (py_float nd vg, g1 @ g2, ct, py_int nd tg, fp)))
   \<and> (\<forall>d. parse_capacitor_comment nd c = Inr d
        \<longrightarrow> mpn d \<noteq> None \<and> value_str d \<noteq> None \<and> footprint d \<noteq> None
            \<and> description d \<noteq> None \<and> vendor d \<noteq> None \<and> manufacturer d \<noteq> None)"
proof (intro conjI)
  show "(re_search match_resistor_value c = None \<or> re_search match_footprint c = None)
      \<longrightarrow> parse_resistor_comment c = Inl (ValueError (ascii ''Invalid resistor comment''))"
    by (auto simp: parse_resistor_comment_def split: option.splits)
  show "\<forall>v fp. re_search match_resistor_value c = Some v \<and> re_search match_footprint c = Some fp
         \<and> (RESISTOR_VALUE_MAP_ERJ v = None \<or> RESISTOR_FOOTPRINT_MAP_ERJ fp = None
              \<or> RESISTOR_FOOTPRINT_MAP_ERJ_SUFFIX fp = None)
        \<longrightarrow> parse_resistor_comment c \<in> {Inl (KeyError v), Inl (KeyError fp)}"
    by (auto simp: parse_resistor_comment_def erj_mpn_def split: option.splits)
  show "\<forall>d. parse_resistor_comment c = Inr d
        \<longrightarrow> mpn d \<noteq> None \<and> value_str d \<noteq> None \<and> footprint d \<noteq> None
            \<and> description d \<noteq> None \<and> vendor d \<noteq> None \<and> manufacturer d \<noteq> None"
    by (auto simp: parse_resistor_comment_def split: option.splits sum.splits)
  show "(re_search (match_voltage nd) c = None \<or> re_search (match_capacitance nd) c = None
         \<or> re_search match_cap_type c = None \<or> re_search (match_tolerance nd) c = None
         \<or> re_search match_footprint c = None)
      \<longrightarrow> parse_capacitor_comment nd c = Inl (ValueError (ascii ''Invalid capacitor comment''))"
    by (auto simp: parse_capacitor_comment_def split: option.splits)
  show "\<forall>vg g1 g2 ct tg fp.
         re_search (match_voltage nd) c = Some vg
         \<and> re_search (match_capacitance nd) c = Some (g1, g2)
         \<and> re_search match_cap_type c = Some ct
         \<and> re_search (match_tolerance nd) c = Some tg
         \<and> re_search match_footprint c = Some fp
         \<and> CAPACITOR_MAP (py_float nd vg, g1 @ g2, ct, py_int nd tg, fp) = None
        \<longrightarrow> parse_capacitor_comment nd c
              = Inl (KeyError_capacitor (py_float nd vg, g1 @ g2, ct, py_int nd tg, fp))"
    by (auto simp: parse_capacitor_comment_def Let_def)
  show "\<forall>d. parse_capacitor_comment nd c = Inr d
        \<longrightarrow> mpn d \<noteq> None \<and> value_str d \<noteq> None \<and> footprint d \<noteq> None
            \<and> description d \<noteq> None \<and> vendor d \<noteq> None \<and> manufacturer d \<noteq> None"
    by (auto simp: parse_capacitor_comment_def Let_def split: option.splits prod.splits)
qed


lemmas cc_eval = parse_capacitor_comment_def match_voltage_def match_capacitance_def
  match_decimal_def match_cap_type_def match_tolerance_def match_footprint_def is_digit_def
  is_ascii_digit_def starts_with_def py_float_def py_int_def digits_value_def CAPACITOR_MAP_def
  ascii_nd_def plus_minus_def ascii_def

theorem parse_comment_aborts_witness:
  "parse_resistor_comment (ascii ''Resistor 10k 0402'')
     = Inl (ValueError (ascii ''Invalid resistor comment''))
   \<and> parse_resistor_comment (ascii ''Resistor '' @ [plus_minus] @ ascii ''1% 2k'' @ [Omega] @ ascii '' 0402'')
     = Inl (KeyError (ascii ''2k'' @ [Omega]))
   \<and> parse_capacitor_comment ascii_nd (ascii ''Capacitor 100nF 16V X7R 0402'')
     = Inl (ValueError (ascii ''Invalid capacitor comment''))
   \<and> parse_capacitor_comment ascii_nd
        (ascii ''Capacitor 47nF 16V X7R '' @ [plus_minus] @ ascii ''10% 0402'')
     = Inl (KeyError_capacitor (16, ascii ''47nF'', ascii ''X7R'', 10, ascii ''0402''))"
  using parse_comment_aborts [of "ascii ''Resistor 10k 0402''" ascii_nd]
  by (simp add: rc_eval cc_eval)


section \<open>extract_product_info returns the cheapest qualifying variation\<close>

lemma set_candidates:
  "set (candidates oq vs) = {(v, pr). v \<in> set vs \<and> pr \<in> set (StandardPricing v) \<and> qualifies oq v pr}"
  by (auto simp: candidates_def)

lemma pricing_fold:
  assumes "QuantityAvailableforPackageType v \<noteq> 0" and "MinimumOrderQuantity v \<le> oq"
  shows "foldl (pricing_step oq (DigiKeyProductNumber v) (QuantityAvailableforPackageType v)) st ps
         = foldl candidate_step st (map (\<lambda>pr. (v, pr)) (filter (qualifies oq v) ps))"
proof (induction ps arbitrary: st)
  case Nil
  show ?case by simp
next
  case (Cons pr ps)
  have "pricing_step oq (DigiKeyProductNumber v) (QuantityAvailableforPackageType v) st pr
        = (if qualifies oq v pr then candidate_step st (v, pr) else st)"
    using assms by (simp add: pricing_step_def candidate_step_def qualifies_def)
  then show ?case using Cons.IH by simp
qed

lemma no_stock_no_candidates:
  "QuantityAvailableforPackageType v = 0 \<or> MinimumOrderQuantity v > oq \<Longrightarrow>
     filter (qualifies oq v) ps = []"
  by (induction ps) (auto simp: qualifies_def)

lemma variation_fold:
  "foldl (variation_step oq) st vs = foldl candidate_step st (candidates oq vs)"
proof (induction vs arbitrary: st)
  case Nil
  show ?case by (simp add: candidates_def)
next
  case (Cons v vs)
  have "variation_step oq st v
        = foldl candidate_step st (map (\<lambda>pr. (v, pr)) (filter (qualifies oq v) (StandardPricing v)))"
  proof (cases "QuantityAvailableforPackageType v = 0 \<or> MinimumOrderQuantity v > oq")
    case True
    then show ?thesis by (simp add: variation_step_def no_stock_no_candidates)
  next
    case False
    then have "QuantityAvailableforPackageType v \<noteq> 0" "MinimumOrderQuantity v \<le> oq" by auto
    from pricing_fold[OF this] False show ?thesis by (simp add: variation_step_def)
  qed
  then show ?case using Cons.IH by (simp add: candidates_def)
qed

lemma chosen_chosen: "chosen (chosen d a) b = chosen d b"
  by (simp add: chosen_def)

lemma candidate_fold_invariant:
  "cs \<noteq> [] \<Longrightarrow>
     \<exists>c \<in> set cs. foldl candidate_step (None, d) cs = (Some (UnitPrice (snd c)), chosen d c)
        \<and> (\<forall>c' \<in> set cs. UnitPrice (snd c) \<le> UnitPrice (snd c'))"
proof (induction cs rule: rev_induct)
  case Nil
  then show ?case by simp
next
  case (snoc x xs)
  show ?case
  proof (cases "xs = []")
    case True
    then show ?thesis by (simp add: candidate_step_def below_best_def chosen_def)
  next
    case False
    with snoc.IH obtain c where c: "c \<in> set xs"
      "foldl candidate_step (None, d) xs = (Some (UnitPrice (snd c)), chosen d c)"
      "\<forall>c' \<in> set xs. UnitPrice (snd c) \<le> UnitPrice (snd c')" by blast
    show ?thesis
    proof (cases "UnitPrice (snd x) < UnitPrice (snd c)")
      case True
      with c(2) have "foldl candidate_step (None, d) (xs @ [x]) = (Some (UnitPrice (snd x)), chosen d x)"
        by (simp add: candidate_step_def below_best_def chosen_def)
      moreover have "\<forall>c' \<in> set (xs @ [x]). UnitPrice (snd x) \<le> UnitPrice (snd c')"
        using True c(3) by fastforce
      ultimately show ?thesis by auto
    next
      case False
      with c(2) have "foldl candidate_step (None, d) (xs @ [x]) = (Some (UnitPrice (snd c)), chosen d c)"
        by (simp add: candidate_step_def below_best_def)
      moreover have "\<forall>c' \<in> set (xs @ [x]). UnitPrice (snd c) \<le> UnitPrice (snd c')"
        using False c(3) by fastforce
      ultimately show ?thesis using c(1) by auto
    qed
  qed
qed

lemma extract_product_info_fold:
  "extract_product_info r oq
     = snd (foldl candidate_step (None, product_data r) (candidates oq (ProductVariations r)))"
  by (simp add: extract_product_info_def product_data_def variation_fold)


lemma extract_product_info_some:
  assumes "candidates oq (ProductVariations r) \<noteq> []"
  shows "\<exists>c \<in> set (candidates oq (ProductVariations r)).
           extract_product_info r oq = chosen (product_data r) c
           \<and> (\<forall>c' \<in> set (candidates oq (ProductVariations r)). UnitPrice (snd c) \<le> UnitPrice (snd c'))"
  using candidate_fold_invariant[OF assms, of "product_data r"]
  by (auto simp: extract_product_info_fold)

text \<open>
  C1: when some variation with stock and a minimum order quantity within the order
  quantity has a price break within the order quantity, \<^verbatim>\<open>extract_product_info\<close> returns
  the DigiKey part number, the unit price and the stock of such a variation and break,
  and no qualifying break of any qualifying variation has a lower unit price. In
  particular a variation without stock or with a minimum order quantity above the order
  quantity is never the one returned.
\<close>

theorem extract_product_info_cheapest:
  "(\<exists>v \<in> set (ProductVariations r). \<exists>pr \<in> set (StandardPricing v). qualifies oq v pr)
   \<longrightarrow> (\<exists>v \<in> set (ProductVariations r). \<exists>pr \<in> set (StandardPricing v).
          qualifies oq v pr
          \<and> vendor_part_number (extract_product_info r oq) = Some (DigiKeyProductNumber v)
          \<and> unit_price (extract_product_info r oq) = Some (UnitPrice pr)
          \<and> available (extract_product_info r oq) = Some (QuantityAvailableforPackageType v)
          \<and> (\<forall>v' \<in> set (ProductVariations r). \<forall>pr' \<in> set (StandardPricing v').
                qualifies oq v' pr' \<longrightarrow> UnitPrice pr \<le> UnitPrice pr'))"
proof
  assume "\<exists>v \<in> set (ProductVariations r). \<exists>pr \<in> set (StandardPricing v). qualifies oq v pr"
  then have "candidates oq (ProductVariations r) \<noteq> []"
    using set_candidates[of oq "ProductVariations r"] by fastforce
  from extract_product_info_some[OF this] obtain v pr where
    c: "(v, pr) \<in> set (candidates oq (ProductVariations r))"
       "extract_product_info r oq = chosen (product_data r) (v, pr)"
       "\<forall>c' \<in> set (candidates oq (ProductVariations r)). UnitPrice pr \<le> UnitPrice (snd c')"
    by fastforce
  from c(1) have q: "v \<in> set (ProductVariations r)" "pr \<in> set (StandardPricing v)" "qualifies oq v pr"
    by (auto simp: set_candidates)
  have m: "\<forall>v' \<in> set (ProductVariations r). \<forall>pr' \<in> set (StandardPricing v').
                qualifies oq v' pr' \<longrightarrow> UnitPrice pr \<le> UnitPrice pr'"
  proof (intro ballI impI)
    fix v' pr' assume "v' \<in> set (ProductVariations r)" "pr' \<in> set (StandardPricing v')" "qualifies oq v' pr'"
    then have "(v', pr') \<in> set (candidates oq (ProductVariations r))" by (simp add: set_candidates)
    with c(3) show "UnitPrice pr \<le> UnitPrice pr'" by fastforce
  qed
  from q m c(2) show "\<exists>v \<in> set (ProductVariations r). \<exists>pr \<in> set (StandardPricing v).
          qualifies oq v pr
          \<and> vendor_part_number (extract_product_info r oq) = Some (DigiKeyProductNumber v)
          \<and> unit_price (extract_product_info r oq) = Some (UnitPrice pr)
          \<and> available (extract_product_info r oq) = Some (QuantityAvailableforPackageType v)
          \<and> (\<forall>v' \<in> set (ProductVariations r). \<forall>pr' \<in> set (StandardPricing v').
                qualifies oq v' pr' \<longrightarrow> UnitPrice pr \<le> UnitPrice pr')"
    by (intro bexI[of _ v] bexI[of _ pr]) (simp_all add: chosen_def)
qed


lemmas epi_eval = example_product_def qualifies_def extract_product_info_def variation_step_def
  pricing_step_def below_best_def empty_part_def

theorem extract_product_info_cheapest_witness:
  "(\<exists>v \<in> set (ProductVariations example_product). \<exists>pr \<in> set (StandardPricing v). qualifies 20 v pr)
   \<and> vendor_part_number (extract_product_info example_product 20) = Some (ascii ''P10.0KLCT-ND'')
   \<and> unit_price (extract_product_info example_product 20) = Some 0.05
   \<and> available (extract_product_info example_product 20) = Some 8000"
  using extract_product_info_cheapest [of example_product 20]
  by (simp add: epi_eval)

section \<open>search_digikey_info\<close>

text \<open>
  C6: once the token and the catalog's response are there, \<^verbatim>\<open>search_digikey_info\<close>
  raises exactly when the response has no exact match and either no product
  (\<^verbatim>\<open>No products found\<close>) or more than one (\<^verbatim>\<open>Multiple products found\<close>); otherwise it
  returns the information extracted from the first exact match when there is one, and
  from the only product when there is none.
\<close>

theorem search_digikey_info_choice:
  assumes "get_digikey_token e CLIENT_ID CLIENT_SECRET w = (Inr token, w1)"
    and "get_cached_digikey_response e token m w1 = (Inr r, w2)"
  shows "search_digikey_info e m oq w =
           (if ExactMatches r \<noteq> [] then (Inr (extract_product_info (hd (ExactMatches r)) oq), w2)
            else if Products r = []
              then (Inl (Exception (ascii ''No products found for MPN: '' @ m)), w2)
            else if length (Products r) > 1
              then (Inl (Exception (ascii ''Multiple products found for MPN: '' @ m)), w2)
            else (Inr (extract_product_info (hd (Products r)) oq), w2))"
  using assms
  by (simp add: search_digikey_info_def choose_product_def split: list.splits)

section \<open>The caches expire\<close>

lemma fetch_search_log:
  "http_log (snd (fetch_search e token k w)) = http_log w @ [PostSearch token k]"
  by (simp add: fetch_search_def time_time_def Let_def split: prod.splits)

lemma fetch_token_log:
  "http_log (snd (fetch_token e c s w)) = http_log w @ [PostToken c s]"
  by (simp add: fetch_token_def time_time_def Let_def split: sum.splits prod.splits)

text \<open>
  C7: \<^verbatim>\<open>get_cached_digikey_response\<close> returns the stored response without a request if
  and only if the cache file of the normalized keyword exists and the clock reads less
  than four hours after its \<^verbatim>\<open>cached_at\<close>; \<^verbatim>\<open>get_digikey_token\<close> returns the cached
  token without a request if and only if the token file exists and the clock reads more
  than 60 seconds before its \<^verbatim>\<open>expires_at\<close>. In every other case exactly one request is
  issued.
\<close>

theorem caches_expire:
  "((\<exists>c. search_cache w (normalize_filename k) = Some c
         \<and> clock e (clock_reads w) - cached_at c < 4 * 3600)
     \<longleftrightarrow> (\<exists>c. search_cache w (normalize_filename k) = Some c
            \<and> fst (get_cached_digikey_response e token k w) = Inr (response c)
            \<and> http_log (snd (get_cached_digikey_response e token k w)) = http_log w))
   \<and> (http_log (snd (get_cached_digikey_response e token k w)) = http_log w
       \<or> http_log (snd (get_cached_digikey_response e token k w))
            = http_log w @ [PostSearch token k])
   \<and> ((\<exists>t. token_cache w = Some t \<and> expires_at t - clock e (clock_reads w) > 60)
     \<longleftrightarrow> (\<exists>t. token_cache w = Some t
            \<and> fst (get_digikey_token e cid secret w) = Inr (access_token t)
            \<and> http_log (snd (get_digikey_token e cid secret w)) = http_log w))
   \<and> (http_log (snd (get_digikey_token e cid secret w)) = http_log w
       \<or> http_log (snd (get_digikey_token e cid secret w)) = http_log w @ [PostToken cid secret])"
proof (intro conjI)
  show "(\<exists>c. search_cache w (normalize_filename k) = Some c
         \<and> clock e (clock_reads w) - cached_at c < 4 * 3600)
     \<longleftrightarrow> (\<exists>c. search_cache w (normalize_filename k) = Some c
            \<and> fst (get_cached_digikey_response e token k w) = Inr (response c)
            \<and> http_log (snd (get_cached_digikey_response e token k w)) = http_log w)"
    by (cases "search_cache w (normalize_filename k)")
       (auto simp: get_cached_digikey_response_def time_time_def fetch_search_log)
  show "http_log (snd (get_cached_digikey_response e token k w)) = http_log w
       \<or> http_log (snd (get_cached_digikey_response e token k w))
            = http_log w @ [PostSearch token k]"
    by (cases "search_cache w (normalize_filename k)")
       (auto simp: get_cached_digikey_response_def time_time_def fetch_search_log)
  show "(\<exists>t. token_cache w = Some t \<and> expires_at t - clock e (clock_reads w) > 60)
     \<longleftrightarrow> (\<exists>t. token_cache w = Some t
            \<and> fst (get_digikey_token e cid secret w) = Inr (access_token t)
            \<and> http_log (snd (get_digikey_token e cid secret w)) = http_log w)"
    by (cases "token_cache w")
       (auto simp: get_digikey_token_def time_time_def fetch_token_log)
  show "http_log (snd (get_digikey_token e cid secret w)) = http_log w
       \<or> http_log (snd (get_digikey_token e cid secret w)) = http_log w @ [PostToken cid secret]"
    by (cases "token_cache w")
       (auto simp: get_digikey_token_def time_time_def fetch_token_log)
qed


section \<open>Rows and their prices\<close>



lemma search_digikey_info_Inr:
  "search_digikey_info e m oq w = (Inr info, w') \<Longrightarrow> \<exists>p. info = extract_product_info p oq"
  by (auto simp: search_digikey_info_def split: prod.splits sum.splits)

lemma update_with_search_Inr:
  "update_with_search e data oq w = (Inr d, w') \<Longrightarrow>
     \<exists>p. d = dict_update data (extract_product_info p oq)"
  by (auto simp: update_with_search_def split: option.splits prod.splits sum.splits
      dest: search_digikey_info_Inr)

lemma parse_resistor_comment_fields:
  "parse_resistor_comment c = Inr r \<Longrightarrow>
     quantity r = None \<and> unit_price r = None \<and> total_price r = None
     \<and> vendor_part_number r = None \<and> available r = None"
  by (auto simp: parse_resistor_comment_def empty_part_def split: option.splits sum.splits)

lemma parse_capacitor_comment_fields:
  "parse_capacitor_comment nd c = Inr r \<Longrightarrow>
     quantity r = None \<and> unit_price r = None \<and> total_price r = None
     \<and> vendor_part_number r = None \<and> available r = None"
  by (auto simp: parse_capacitor_comment_def empty_part_def Let_def
      split: option.splits prod.splits)

lemma parse_bom_row_Inr:
  assumes "parse_bom_row e nd row bq w = (Inr d, w')"
  shows "\<exists>base info. d = set_total_price (dict_update base info) (split_count (Designator row) * bq)
           \<and> row_base base row
           \<and> (info = empty_part\<lparr>mpn := Some (ascii ''DNI''), dni := Some (ascii ''DNI''),
                         description := Some (ascii ''Do not install'')\<rparr>
              \<or> (\<exists>p. info = extract_product_info p (split_count (Designator row) * bq)))"
proof -
  let ?oq = "split_count (Designator row) * bq"
  let ?data = "empty_part\<lparr>mpn := Some (LCSC row), designators := Some (Designator row),
      quantity := Some (split_count (Designator row)), description := Some (Comment row)\<rparr>"
  let ?dni = "empty_part\<lparr>mpn := Some (ascii ''DNI''), dni := Some (ascii ''DNI''),
                         description := Some (ascii ''Do not install'')\<rparr>"
  have base0: "row_base ?data row" by (simp add: row_base_def empty_part_def)
  consider (res) "contains (ascii ''Resistor'') (Comment row)"
    | (cap) "\<not> contains (ascii ''Resistor'') (Comment row)" "contains (ascii ''Capacitor'') (Comment row)"
    | (dni) "\<not> contains (ascii ''Resistor'') (Comment row)" "\<not> contains (ascii ''Capacitor'') (Comment row)"
            "contains (ascii ''Do not populate'') (Comment row)"
    | (gen) "\<not> contains (ascii ''Resistor'') (Comment row)" "\<not> contains (ascii ''Capacitor'') (Comment row)"
            "\<not> contains (ascii ''Do not populate'') (Comment row)"
    by blast
  then show ?thesis
  proof cases
    case res
    with assms obtain r d0 where r: "parse_resistor_comment (Comment row) = Inr r"
      and u: "update_with_search e (dict_update ?data r) ?oq w = (Inr d0, w')"
      and d: "d = set_total_price d0 ?oq"
      by (auto simp: parse_bom_row_def Let_def split: sum.splits prod.splits)
    from update_with_search_Inr[OF u] obtain p where
      p: "d0 = dict_update (dict_update ?data r) (extract_product_info p ?oq)" by blast
    have "row_base (dict_update ?data r) row"
      using parse_resistor_comment_fields[OF r]
      by (simp add: row_base_def dict_update_def override_def empty_part_def)
    with d p show ?thesis by blast
  next
    case cap
    with assms obtain r d0 where r: "parse_capacitor_comment nd (Comment row) = Inr r"
      and u: "update_with_search e (dict_update ?data r) ?oq w = (Inr d0, w')"
      and d: "d = set_total_price d0 ?oq"
      by (auto simp: parse_bom_row_def Let_def split: sum.splits prod.splits)
    from update_with_search_Inr[OF u] obtain p where
      p: "d0 = dict_update (dict_update ?data r) (extract_product_info p ?oq)" by blast
    have "row_base (dict_update ?data r) row"
      using parse_capacitor_comment_fields[OF r]
      by (simp add: row_base_def dict_update_def override_def empty_part_def)
    with d p show ?thesis by blast
  next
    case dni
    with assms have "d = set_total_price (dict_update ?data ?dni) ?oq"
      by (auto simp: parse_bom_row_def Let_def split: sum.splits prod.splits)
    with base0 show ?thesis by blast
  next
    case gen
    let ?data' = "?data\<lparr>mpn := Some (rewrite_mpn (LCSC row))\<rparr>"
    from gen assms obtain d0 where
      u: "update_with_search e ?data' ?oq w = (Inr d0, w')"
      and d: "d = set_total_price d0 ?oq"
      by (auto simp: parse_bom_row_def Let_def split: sum.splits prod.splits)
    from update_with_search_Inr[OF u] obtain p where
      p: "d0 = dict_update ?data' (extract_product_info p ?oq)" by blast
    have "row_base ?data' row" by (simp add: row_base_def empty_part_def)
    with d p show ?thesis by blast
  qed
qed



lemma parse_bom_row_info:
  assumes "parse_bom_row e nd row bq w = (Inr d, w')"
  shows "\<exists>info. (info = empty_part\<lparr>mpn := Some (ascii ''DNI''), dni := Some (ascii ''DNI''),
                         description := Some (ascii ''Do not install'')\<rparr>
              \<or> (\<exists>p. info = extract_product_info p (split_count (Designator row) * bq)))
           \<and> unit_price d = unit_price info
           \<and> vendor_part_number d = vendor_part_number info
           \<and> available d = available info"
proof -
  from parse_bom_row_Inr[OF assms] obtain base info where
    d: "d = set_total_price (dict_update base info) (split_count (Designator row) * bq)"
    and b: "row_base base row"
    and i: "info = empty_part\<lparr>mpn := Some (ascii ''DNI''), dni := Some (ascii ''DNI''),
                         description := Some (ascii ''Do not install'')\<rparr>
              \<or> (\<exists>p. info = extract_product_info p (split_count (Designator row) * bq))"
    by blast
  from b have "unit_price d = unit_price info \<and> vendor_part_number d = vendor_part_number info
           \<and> available d = available info"
    unfolding d
    by (auto simp: set_total_price_def dict_update_def override_def row_base_def
        split: option.splits)
  with i show ?thesis by blast
qed

section \<open>The sorted report\<close>










lemma main_zero_boards:
  "parse_bom e nd bom 0 w = (Inr parsed, w1) \<Longrightarrow>
     main e nd bom 0 w
       = (Inl ZeroDivisionError,
          [Table (map simple_row (sort_reverse total_price_key parsed))], w1)"
  by (simp add: main_def Let_def)



lemma parse_resistor_comment_mpn:
  "parse_resistor_comment c = Inr r \<Longrightarrow> \<exists>x. mpn r = Some x"
  by (auto simp: parse_resistor_comment_def split: option.splits sum.splits)

lemma parse_capacitor_comment_mpn:
  "parse_capacitor_comment nd c = Inr r \<Longrightarrow> \<exists>x. mpn r = Some x"
  by (auto simp: parse_capacitor_comment_def Let_def split: option.splits prod.splits)








section \<open>The example run, evaluated\<close>

lemma example_normalize:
  "normalize_filename (ascii ''ERJ-2RKF1002X'') = ascii ''ERJ-2RKF1002X''"
  by (simp add: normalize_filename_def strip_underscores_def sub_invalid_def
      invalid_filename_chars_def underscore_def ascii_def)

lemma example_token:
  "get_digikey_token example_env CLIENT_ID CLIENT_SECRET (example_world\<lparr>clock_reads := n\<rparr>)
     = (if real n < 440 then (Inr (ascii ''token''), example_world\<lparr>clock_reads := Suc n\<rparr>)
        else (Inl HTTPError,
              example_world\<lparr>clock_reads := Suc n,
                             http_log := [PostToken CLIENT_ID CLIENT_SECRET]\<rparr>))"
  by (simp add: get_digikey_token_def fetch_token_def time_time_def example_env_def
      example_world_def)

lemma example_cached:
  "real n < 13400 \<Longrightarrow>
   get_cached_digikey_response example_env t (ascii ''ERJ-2RKF1002X'')
       (example_world\<lparr>clock_reads := n\<rparr>)
     = (Inr example_response, example_world\<lparr>clock_reads := Suc n\<rparr>)"
  by (simp add: get_cached_digikey_response_def time_time_def example_env_def
      example_world_def example_normalize)


theorem search_digikey_info_choice_witness:
  "search_digikey_info example_env (ascii ''ERJ-2RKF1002X'') 20 example_world
     = (Inr (extract_product_info example_product 20), example_world\<lparr>clock_reads := 2\<rparr>)"
proof -
  have w0: "example_world = example_world\<lparr>clock_reads := 0\<rparr>" by (simp add: example_world_def)
  have t: "get_digikey_token example_env CLIENT_ID CLIENT_SECRET example_world
             = (Inr (ascii ''token''), example_world\<lparr>clock_reads := Suc 0\<rparr>)"
    by (subst w0) (simp add: example_token)
  have c: "get_cached_digikey_response example_env (ascii ''token'') (ascii ''ERJ-2RKF1002X'')
             (example_world\<lparr>clock_reads := Suc 0\<rparr>)
           = (Inr example_response, example_world\<lparr>clock_reads := Suc (Suc 0)\<rparr>)"
    by (simp add: example_cached)
  show ?thesis
    using search_digikey_info_choice [OF t c, of 20]
    by (simp add: example_response_def numeral_2_eq_2)
qed

theorem caches_expire_witness:
  "fst (get_cached_digikey_response example_env (ascii ''token'') (ascii ''ERJ-2RKF1002X'')
          example_world) = Inr example_response
   \<and> http_log (snd (get_cached_digikey_response example_env (ascii ''token'')
          (ascii ''ERJ-2RKF1002X'') example_world)) = []
   \<and> fst (get_digikey_token example_env CLIENT_ID CLIENT_SECRET example_world)
       = Inr (ascii ''token'')
   \<and> http_log (snd (get_digikey_token example_env CLIENT_ID CLIENT_SECRET example_world)) = []
   \<and> http_log (snd (get_cached_digikey_response example_env (ascii ''token'')
          (ascii ''ERJ-2RKF1002X'') (example_world\<lparr>clock_reads := 14000\<rparr>)))
       = [PostSearch (ascii ''token'') (ascii ''ERJ-2RKF1002X'')]
   \<and> http_log (snd (get_digikey_token example_env CLIENT_ID CLIENT_SECRET
          (example_world\<lparr>clock_reads := 14000\<rparr>)))
       = [PostToken CLIENT_ID CLIENT_SECRET]"
  using caches_expire [of example_world "ascii ''ERJ-2RKF1002X''" example_env "ascii ''token''"
      CLIENT_ID CLIENT_SECRET]
    caches_expire [of "example_world\<lparr>clock_reads := 14000\<rparr>" "ascii ''ERJ-2RKF1002X''"
      example_env "ascii ''token''" CLIENT_ID CLIENT_SECRET]
  by (simp add: example_normalize example_world_def example_env_def
      get_cached_digikey_response_def get_digikey_token_def time_time_def
      fetch_search_def fetch_token_def)



lemma example_resistor_comment:
  "parse_resistor_comment (Comment example_resistor_line)
     = Inr (empty_part\<lparr>
          mpn := Some (ascii ''ERJ-2RKF1002X''),
          value_str := Some (ascii ''10k'' @ [Omega]),
          footprint := Some (ascii ''0402''),
          description := Some (ascii ''10k'' @ [Omega] @ [32, plus_minus] @ ascii ''1% 0402''
             @ ascii '' thick film resistor 0.1W 50V '' @ [plus_minus] @ ascii ''100ppm/C''),
          vendor := Some (ascii ''DigiKey''),
          manufacturer := Some (ascii ''Panasonic Electronic Components'')\<rparr>)"
  by (simp add: example_resistor_line_def rc_eval)

lemma example_contains:
  "contains (ascii ''Resistor'') (Comment example_resistor_line)"
  by (simp add: example_resistor_line_def starts_with_def ascii_def)

lemma example_search:
  "real_of_int oq < 440 \<Longrightarrow> search_digikey_info example_env (ascii ''ERJ-2RKF1002X'') oq example_world
     = (Inr (extract_product_info example_product oq), example_world\<lparr>clock_reads := 2\<rparr>)"
proof -
  have w0: "example_world = example_world\<lparr>clock_reads := 0\<rparr>" by (simp add: example_world_def)
  have t: "get_digikey_token example_env CLIENT_ID CLIENT_SECRET example_world
             = (Inr (ascii ''token''), example_world\<lparr>clock_reads := Suc 0\<rparr>)"
    by (subst w0) (simp add: example_token)
  have c: "get_cached_digikey_response example_env (ascii ''token'') (ascii ''ERJ-2RKF1002X'')
             (example_world\<lparr>clock_reads := Suc 0\<rparr>)
           = (Inr example_response, example_world\<lparr>clock_reads := Suc (Suc 0)\<rparr>)"
    by (simp add: example_cached)
  show ?thesis
    by (simp add: search_digikey_info_def t c choose_product_def example_response_def
        numeral_2_eq_2)
qed


lemma example_info_0:
  "extract_product_info example_product 0 = product_data example_product"
  by (simp add: epi_eval product_data_def)

lemma example_product_data:
  "product_data example_product
     = empty_part\<lparr>mpn := Some (ascii ''ERJ-2RKF1002X''),
         description := Some (ascii ''RES 10K OHM 1% 1/10W 0402''),
         manufacturer := Some (ascii ''Panasonic Electronic Components''),
         vendor := Some (ascii ''DigiKey''),
         footprint := Some (ascii ''0402'')\<rparr>"
  by (simp add: product_data_def supplier_device_package_def example_product_def)

lemma example_line_fields:
  "LCSC example_resistor_line = ascii ''C25744''"
  "Designator example_resistor_line = ascii ''R1,R2''"
  by (simp_all add: example_resistor_line_def)

lemma example_split: "split_count (ascii ''R1,R2'') = 2"
  by (simp add: split_count_def ascii_def)


lemma example_resistor_parse_0:
  "parse_bom_row example_env ascii_nd example_resistor_line 0 example_world
     = (Inr (example_resistor_row\<lparr>vendor_part_number := None, available := None,
               unit_price := None, total_price := None\<rparr>),
        example_world\<lparr>clock_reads := 2\<rparr>)"
  using example_contains
  by (simp add: parse_bom_row_def example_resistor_comment update_with_search_def
      dict_update_def override_def empty_part_def example_search example_info_0
      example_product_data set_total_price_def Let_def
      example_resistor_row_def example_line_fields example_split)












end
